theory Spec2Isabelle
  imports Main "HOL-Library.Sublist"
begin

section \<open>Python strings\<close>

text \<open>
  The toolbox (\<^verbatim>\<open>als-microct-toolbox/data_management.py\<close>) is string glue around an
  HTTP session. Python \<^verbatim>\<open>str\<close> values are modelled as \<^typ>\<open>string\<close>, and the three
  string methods the module relies on are written out below.

  A \<^typ>\<open>char\<close> is a byte. A Python \<^verbatim>\<open>bytes\<close> value is the list of its bytes; a Python
  \<^verbatim>\<open>str\<close>, a sequence of code points, is represented by the bytes of its UTF-8 encoding
  (a lone surrogate, which JSON can deliver, encoded like any other code point).
  Concatenation, equality, substring search and splitting at an ASCII separator are the
  same operations on the encoded form, and so is \<^verbatim>\<open>strip\<close> with ASCII characters, the
  only way the module calls it. Indexing and length count characters, not bytes: they go
  through \<open>py_chars\<close> below.

  \<^verbatim>\<open>s.strip(chars)\<close> removes, from both ends of \<^verbatim>\<open>s\<close>, every leading and every
  trailing character that occurs in \<^verbatim>\<open>chars\<close>: the argument is a set of characters,
  not a suffix.
\<close>

definition lstrip_chars :: "string \<Rightarrow> string \<Rightarrow> string" where
  "lstrip_chars chars s = dropWhile (\<lambda>c. c \<in> set chars) s"

definition rstrip_chars :: "string \<Rightarrow> string \<Rightarrow> string" where
  "rstrip_chars chars s = rev (dropWhile (\<lambda>c. c \<in> set chars) (rev s))"

definition strip_chars :: "string \<Rightarrow> string \<Rightarrow> string" where
  "strip_chars chars s = rstrip_chars chars (lstrip_chars chars s)"

text \<open>
  \<^verbatim>\<open>s.split(sep)\<close> for a one-character separator: the pieces between the separators, in
  order; the result is never empty (\<^verbatim>\<open>"".split("/") == [""]\<close>).
\<close>

fun split_on :: "char \<Rightarrow> string \<Rightarrow> string list" where
  "split_on sep [] = [[]]"
| "split_on sep (c # cs) =
     (if c = sep then [] # split_on sep cs
      else (case split_on sep cs of
              [] \<Rightarrow> [[c]]
            | piece # pieces \<Rightarrow> (c # piece) # pieces))"

text \<open>
  \<^verbatim>\<open>sub in s\<close> and \<^verbatim>\<open>s.find(sub) != -1\<close>: \<^verbatim>\<open>sub\<close> occurs in \<^verbatim>\<open>s\<close> as a contiguous
  substring. The empty string occurs in every string.
\<close>

fun str_contains :: "string \<Rightarrow> string \<Rightarrow> bool" where
  "str_contains [] sub = (sub = [])"
| "str_contains (c # cs) sub = (prefix sub (c # cs) \<or> str_contains cs sub)"

section \<open>Errors and Python indexing\<close>

text \<open>
  Every exception the modelled code can raise is a value. \<open>SessionClosedError\<close> is the
  error named by the specification for operations on a closed session; no expression of
  the source raises it.
\<close>

datatype error =
    NameError string
  | UnboundLocalError string
  | IndexError
  | KeyError
  | TypeError
  | AttributeError
  | JSONDecodeError
  | ConnectionError
  | OSError
  | UnicodeDecodeError
  | SessionClosedError

text \<open>\<^verbatim>\<open>xs[i]\<close> on a sequence: negative indices count from the end, anything else out of
  range raises \<^verbatim>\<open>IndexError\<close>.\<close>

definition py_index :: "'a list \<Rightarrow> int \<Rightarrow> error + 'a" where
  "py_index xs i =
     (if 0 \<le> i \<and> i < int (length xs) then Inr (xs ! nat i)
      else if i < 0 \<and> - int (length xs) \<le> i then Inr (xs ! nat (int (length xs) + i))
      else Inl IndexError)"

text \<open>
  The characters of a \<^verbatim>\<open>str\<close>: in UTF-8 a character is one byte that is not a
  continuation byte (\<^verbatim>\<open>10xxxxxx\<close>), followed by its continuation bytes. \<^verbatim>\<open>s[i]\<close> on a
  \<^verbatim>\<open>str\<close> is the one-character string at that position.
\<close>

definition utf8_continuation :: "char \<Rightarrow> bool" where
  "utf8_continuation c = (digit7 c \<and> \<not> digit6 c)"

function py_chars :: "string \<Rightarrow> string list" where
  "py_chars [] = []"
| "py_chars (c # cs) =
     (c # takeWhile utf8_continuation cs) # py_chars (dropWhile utf8_continuation cs)"
  by pat_completeness auto
termination
  by (relation "measure length") (auto simp: length_dropWhile_le less_Suc_eq_le)

definition py_str_index :: "string \<Rightarrow> int \<Rightarrow> error + string" where
  "py_str_index s i = py_index (py_chars s) i"

section \<open>The session object and the path resolver\<close>

text \<open>
  \<^verbatim>\<open>SpotSession.__init__\<close> stores three strings on the object; \<^verbatim>\<open>self.session\<close>, the
  \<^verbatim>\<open>requests.Session\<close>, lives in the world (see below). A \<^verbatim>\<open>username\<close> argument is a
  Python string or \<^verbatim>\<open>None\<close>: \<^typ>\<open>string option\<close>. An omitted argument is the default
  \<^verbatim>\<open>'default'\<close>, that is \<open>Some ''default''\<close>.
\<close>

record SpotSession =
  URL_authentication :: string
  username :: string
  spot_username :: string

text \<open>
  \<^verbatim>\<open>
  def formatPath(self, dataset, username='default'):
      dataset = dataset.strip(".h5")
      if username == 'default' or username == None:
          username = self.spot_username
          filename = dataset
      elif "/" in dataset:
          datasplit = dataset.split("/")
          username = datasplit[-2]
          filename = datasplit[-1]
      else:
          filename = dataset
      return filename, username
  \<close>
\<close>

definition formatPath :: "SpotSession \<Rightarrow> string \<Rightarrow> string option \<Rightarrow> error + (string \<times> string)" where
  "formatPath self dataset0 uname0 =
     (let dataset = strip_chars ''.h5'' dataset0 in
      case uname0 of
        None \<Rightarrow> Inr (dataset, spot_username self)
      | Some uname \<Rightarrow>
          if uname = ''default'' then Inr (dataset, spot_username self)
          else if str_contains dataset ''/'' then
            (let datasplit = split_on (CHR ''/'') dataset in
             case py_index datasplit (- 2) of
               Inl e \<Rightarrow> Inl e
             | Inr uname' \<Rightarrow>
                 (case py_index datasplit (- 1) of
                    Inl e \<Rightarrow> Inl e
                  | Inr filename \<Rightarrow> Inr (filename, uname')))
          else Inr (dataset, uname))"

section \<open>JSON values and the HTTP session\<close>

text \<open>
  \<^verbatim>\<open>r.json()\<close> decodes a response body into Python lists, dicts, strings, numbers,
  booleans and \<^verbatim>\<open>None\<close>. A dict is an association list (keys distinct, looked up with
  \<^const>\<open>map_of\<close>); numbers are modelled as integers (the code never computes with a number it has received).
\<close>

datatype json =
    JNull
  | JBool bool
  | JNum int
  | JStr string
  | JArr "json list"
  | JObj "(string \<times> json) list"

text \<open>\<^verbatim>\<open>v.__len__()\<close>: lists, dicts and strings have a length, the other values have no
  such attribute.\<close>

fun py_len :: "json \<Rightarrow> error + nat" where
  "py_len (JArr xs) = Inr (length xs)"
| "py_len (JObj kvs) = Inr (length kvs)"
| "py_len (JStr s) = Inr (length (py_chars s))"
| "py_len _ = Inl AttributeError"

text \<open>\<^verbatim>\<open>v[i]\<close> with an integer \<^verbatim>\<open>i\<close>: sequence indexing on lists and strings, a missing key
  on a dict (JSON keys are strings), not subscriptable otherwise.\<close>

fun py_getitem_int :: "json \<Rightarrow> int \<Rightarrow> error + json" where
  "py_getitem_int (JArr xs) i = py_index xs i"
| "py_getitem_int (JStr s) i = (case py_str_index s i of Inl e \<Rightarrow> Inl e | Inr c \<Rightarrow> Inr (JStr c))"
| "py_getitem_int (JObj kvs) i = Inl KeyError"
| "py_getitem_int _ i = Inl TypeError"

text \<open>\<^verbatim>\<open>v[k]\<close> with a string key: dict lookup; lists and strings take integer indices
  only.\<close>

fun py_getitem_str :: "json \<Rightarrow> string \<Rightarrow> error + json" where
  "py_getitem_str (JObj kvs) k = (case map_of kvs k of None \<Rightarrow> Inl KeyError | Some v \<Rightarrow> Inr v)"
| "py_getitem_str _ k = Inl TypeError"

text \<open>
  A call on \<^verbatim>\<open>self.session\<close> is an event; the HTTP library and the remote portal
  together are a parameter \<open>net\<close> that sees every earlier event of the session (so it
  may keep cookies, and it sees a \<^verbatim>\<open>close()\<close>) and either answers or fails at transport
  level, which \<^verbatim>\<open>requests\<close> raises as \<^verbatim>\<open>ConnectionError\<close>. A response carries its raw
  body and, when the body is JSON, the decoded value.
\<close>

datatype http_method = GET | POST

record request =
  meth :: http_method
  url :: string
  params :: "(string \<times> json) list"
  form :: "(string \<times> string) list"

datatype event = Req request | Close

record response =
  content :: string
  decoded :: "json option"

type_synonym net = "event list \<Rightarrow> request \<Rightarrow> response option"

text \<open>What \<^verbatim>\<open>print\<close> and \<^verbatim>\<open>logging.info\<close> (configured to write bare messages to
  \<^verbatim>\<open>sys.stdout\<close>) emit: a string, the arguments of a multi-argument \<^verbatim>\<open>print\<close>, or a
  list printed as a whole.\<close>

datatype printed = PStr string | PArgs "string list" | PList "string list"

text \<open>
  The world outside the interpreter: the events of the HTTP session, the file system
  (the bytes of the files that exist, and which paths can be opened for writing), the
  platform's default text encoding (the decoder that \<^verbatim>\<open>open(path, 'r')\<close> applies: from
  the bytes of a file to its text, or \<open>None\<close> where the bytes are not valid in that
  encoding), standard output, and the commands handed to \<^verbatim>\<open>os.system\<close>.
\<close>

record world =
  log :: "event list"
  files :: "string \<rightharpoonup> string"
  writable :: "string \<Rightarrow> bool"
  decode :: "string \<Rightarrow> string option"
  stdout :: "printed list"
  commands :: "string list"

definition session_send :: "net \<Rightarrow> world \<Rightarrow> request \<Rightarrow> (error + response) \<times> world" where
  "session_send net w rq =
     (let w' = w\<lparr>log := log w @ [Req rq]\<rparr> in
      case net (log w) rq of
        None \<Rightarrow> (Inl ConnectionError, w')
      | Some r \<Rightarrow> (Inr r, w'))"


definition response_json :: "response \<Rightarrow> error + json" where
  "response_json r = (case decoded r of None \<Rightarrow> Inl JSONDecodeError | Some j \<Rightarrow> Inr j)"

text \<open>The shape shared by the query methods: \<^verbatim>\<open>r = self.session.get(...); return r.json()\<close>.\<close>

definition get_json :: "net \<Rightarrow> world \<Rightarrow> request \<Rightarrow> (error + json) \<times> world" where
  "get_json net w rq =
     (case session_send net w rq of
        (Inl e, w') \<Rightarrow> (Inl e, w')
      | (Inr r, w') \<Rightarrow> (response_json r, w'))"

section \<open>Session life cycle and query operations\<close>

text \<open>
  \<^verbatim>\<open>__init__(self, username='default', password=None)\<close>. When no password is given it is
  read from the terminal by \<^verbatim>\<open>getpass.getpass()\<close>; \<open>typed\<close> is what the user types
  there. The constructor stores the fixed account name, replaces the \<^verbatim>\<open>'default'\<close>
  sentinel by it, and performs the handshake: a GET, then a POST of the credentials.
\<close>

definition auth_url :: string where
  "auth_url = ''https://portal-auth.nersc.gov/als/auth''"

definition SpotSession_init ::
  "net \<Rightarrow> world \<Rightarrow> string \<Rightarrow> string option \<Rightarrow> string \<Rightarrow> (error + SpotSession) \<times> world" where
  "SpotSession_init net w uname password typed =
     (let spot_password = (case password of None \<Rightarrow> typed | Some p \<Rightarrow> p);
          self = \<lparr>URL_authentication = auth_url, username = ''alvarorh'',
                  spot_username = (if uname = ''default'' then ''alvarorh'' else uname)\<rparr>
      in case session_send net w
                \<lparr>meth = GET, url = URL_authentication self, params = [], form = []\<rparr> of
           (Inl e, w1) \<Rightarrow> (Inl e, w1)
         | (Inr r, w1) \<Rightarrow>
             (case session_send net w1
                     \<lparr>meth = POST, url = URL_authentication self, params = [],
                      form = [(''username'', spot_username self), (''password'', spot_password)]\<rparr> of
                (Inl e, w2) \<Rightarrow> (Inl e, w2)
              | (Inr r', w2) \<Rightarrow> (Inr self, w2)))"




text \<open>
  \<^verbatim>\<open>
  def derived_datasets(self, dataset):
      dataset = dataset.strip(".h5")
      self.URL_DerivedDatasets = "https://portal-auth.nersc.gov/als/hdf/dataset"
      self.PARAMS_DerivedDatasets = {"dataset": dataset}
      r = self.session.get(self.URL_DerivedDatasets, params=self.PARAMS_DerivedDatasets)
      return r.json()
  \<close>
\<close>

definition derived_request :: "string \<Rightarrow> request" where
  "derived_request dataset =
     \<lparr>meth = GET, url = ''https://portal-auth.nersc.gov/als/hdf/dataset'',
      params = [(''dataset'', JStr (strip_chars ''.h5'' dataset))], form = []\<rparr>"

definition derived_datasets :: "net \<Rightarrow> SpotSession \<Rightarrow> world \<Rightarrow> string \<Rightarrow> (error + json) \<times> world" where
  "derived_datasets net self w dataset = get_json net w (derived_request dataset)"

text \<open>
  \<^verbatim>\<open>
  def attributes(self, dataset, username=None):
      self.URL_attributes = "https://portal-auth.nersc.gov/als/hdf/attributes/als/bl832/"
      dataset, username = self.formatPath(dataset, username=username)
      URLstring = self.URL_attributes + username + "/" + dataset + "/raw/" + dataset + ".h5"
      r = self.session.get(url=URLstring, params={"group": "/"})
      return r.json()
  \<close>
\<close>

definition attributes_request :: "string \<Rightarrow> string \<Rightarrow> request" where
  "attributes_request dataset uname =
     \<lparr>meth = GET,
      url = ''https://portal-auth.nersc.gov/als/hdf/attributes/als/bl832/''
            @ uname @ ''/'' @ dataset @ ''/raw/'' @ dataset @ ''.h5'',
      params = [(''group'', JStr ''/'')], form = []\<rparr>"

definition attributes ::
  "net \<Rightarrow> SpotSession \<Rightarrow> world \<Rightarrow> string \<Rightarrow> string option \<Rightarrow> (error + json) \<times> world" where
  "attributes net self w dataset0 uname0 =
     (case formatPath self dataset0 uname0 of
        Inl e \<Rightarrow> (Inl e, w)
      | Inr (dataset, uname) \<Rightarrow> get_json net w (attributes_request dataset uname))"

text \<open>
  \<^verbatim>\<open>
  def list_images(self, dataset, username):
      dataset = dataset.strip(".h5")
      self.URL_listImages = "https://portal-auth.nersc.gov/als/hdf/listimages/als/bl832/"
      URLstring = self.URL_listImages + username + "/" + dataset + "/raw/" + dataset + ".h5"
      r = self.session.get(URLstring)
      return r.json()
  \<close>
\<close>

definition list_images_request :: "string \<Rightarrow> string \<Rightarrow> request" where
  "list_images_request dataset0 uname =
     (let dataset = strip_chars ''.h5'' dataset0 in
      \<lparr>meth = GET,
       url = ''https://portal-auth.nersc.gov/als/hdf/listimages/als/bl832/''
             @ uname @ ''/'' @ dataset @ ''/raw/'' @ dataset @ ''.h5'',
       params = [], form = []\<rparr>)"

definition list_images ::
  "net \<Rightarrow> SpotSession \<Rightarrow> world \<Rightarrow> string \<Rightarrow> string \<Rightarrow> (error + json) \<times> world" where
  "list_images net self w dataset uname = get_json net w (list_images_request dataset uname)"

section \<open>Image download\<close>

text \<open>
  Both \<^verbatim>\<open>download_image\<close> and \<^verbatim>\<open>download_URLS\<close> begin with the same statements:
  \<^verbatim>\<open>
      filename, username = self.formatPath(dataset, username=username)
      URL_download = ...
      data_paths = self.derived_datasets(filename)
      for i in range(data_paths.__len__()):
          path = data_paths[i]['path']
          if path.find(kind) != -1:
              break
      image_list = self.list_images(filename, username)
      image = image_list[number]
  \<close>
  The loop variable \<^verbatim>\<open>path\<close> is a local that is unbound until the body has run once:
  \<open>None\<close> below. \<open>scan_paths\<close> is the loop from index \<open>i\<close> with \<open>k\<close> iterations
  left; \<^verbatim>\<open>path.find\<close> exists on strings only.
\<close>

fun scan_paths :: "json \<Rightarrow> string \<Rightarrow> nat \<Rightarrow> nat \<Rightarrow> string option \<Rightarrow> error + string option" where
  "scan_paths data_paths kind i 0 path = Inr path"
| "scan_paths data_paths kind i (Suc k) path =
     (case py_getitem_int data_paths (int i) of
        Inl e \<Rightarrow> Inl e
      | Inr entry \<Rightarrow>
          (case py_getitem_str entry ''path'' of
             Inl e \<Rightarrow> Inl e
           | Inr (JStr p) \<Rightarrow>
               if str_contains p kind then Inr (Some p)
               else scan_paths data_paths kind (Suc i) k (Some p)
           | Inr _ \<Rightarrow> Inl AttributeError))"

definition select_path :: "json \<Rightarrow> string \<Rightarrow> error + string option" where
  "select_path data_paths kind =
     (case py_len data_paths of
        Inl e \<Rightarrow> Inl e
      | Inr n \<Rightarrow> scan_paths data_paths kind 0 n None)"

definition locate_image ::
  "net \<Rightarrow> SpotSession \<Rightarrow> world \<Rightarrow> string \<Rightarrow> string option \<Rightarrow> string \<Rightarrow> int
     \<Rightarrow> (error + (string \<times> string option \<times> json)) \<times> world" where
  "locate_image net self w dataset uname0 kind number =
     (case formatPath self dataset uname0 of
        Inl e \<Rightarrow> (Inl e, w)
      | Inr (filename, uname) \<Rightarrow>
          (case derived_datasets net self w filename of
             (Inl e, w1) \<Rightarrow> (Inl e, w1)
           | (Inr data_paths, w1) \<Rightarrow>
               (case select_path data_paths kind of
                  Inl e \<Rightarrow> (Inl e, w1)
                | Inr path \<Rightarrow>
                    (case list_images net self w1 filename uname of
                       (Inl e, w2) \<Rightarrow> (Inl e, w2)
                     | (Inr image_list, w2) \<Rightarrow>
                         (case py_getitem_int image_list number of
                            Inl e \<Rightarrow> (Inl e, w2)
                          | Inr img \<Rightarrow> (Inr (filename, path, img), w2))))))"

text \<open>
  \<^verbatim>\<open>r.iter_content(chunk_size=512)\<close> yields the body in pieces of at most 512 bytes; the
  loop \<^verbatim>\<open>for chunk in ...: if chunk: location.write(chunk)\<close> appends the non-empty ones to
  the file that \<^verbatim>\<open>open(fileLocation, "wb")\<close> has created or truncated.
\<close>

function iter_content :: "nat \<Rightarrow> string \<Rightarrow> string list" where
  "iter_content chunk_size body =
     (if body = [] \<or> chunk_size = 0 then []
      else take chunk_size body # iter_content chunk_size (drop chunk_size body))"
  by pat_completeness auto
termination
  by (relation "measure (\<lambda>(n, body). length body)") auto

declare iter_content.simps [simp del]

definition file_write :: "string \<Rightarrow> string \<Rightarrow> world \<Rightarrow> world" where
  "file_write location chunk w =
     w\<lparr>files := (files w)(location \<mapsto> (case files w location of None \<Rightarrow> chunk | Some old \<Rightarrow> old @ chunk))\<rparr>"

fun write_chunks :: "string \<Rightarrow> string list \<Rightarrow> world \<Rightarrow> world" where
  "write_chunks location [] w = w"
| "write_chunks location (chunk # chunks) w =
     write_chunks location chunks (if chunk \<noteq> [] then file_write location chunk w else w)"

definition open_wb :: "string \<Rightarrow> world \<Rightarrow> error + world" where
  "open_wb location w =
     (if writable w location then Inr (w\<lparr>files := (files w)(location \<mapsto> [])\<rparr>) else Inl OSError)"

definition py_print :: "printed \<Rightarrow> world \<Rightarrow> world" where
  "py_print item w = w\<lparr>stdout := stdout w @ [item]\<rparr>"

text \<open>
  \<^verbatim>\<open>
  def download_image(self, dataset, username='default', kind='raw', number=0,
                     downloadPath='default', downloadName='default'):
      ... (the statements above, with URL_download = ".../als/hdf/rawdata")
      if downloadPath == 'default':
          downloadPath = "./"
      if downloadName == 'default':
          downloadName = filename
      if downloadPath[-1] != "/":
          downloadPath = downloadPath + "/"
      URLstring = URL_download + path
      r = self.session.get(url=URLstring, params={"group": "/" + image})
      fileLocation = downloadPath + downloadName + '.tif'
      location = open(fileLocation, "wb")
      for chunk in r.iter_content(chunk_size=512):
          if chunk:
              location.write(chunk)
      print('download  complete: ' + fileLocation)
      return fileLocation
  \<close>
\<close>

definition rawdata_url :: string where
  "rawdata_url = ''https://portal-auth.nersc.gov/als/hdf/rawdata''"

definition image_request :: "string \<Rightarrow> string \<Rightarrow> string \<Rightarrow> request" where
  "image_request endpoint path name =
     \<lparr>meth = GET, url = endpoint @ path, params = [(''group'', JStr (''/'' @ name))], form = []\<rparr>"

definition download_image ::
  "net \<Rightarrow> SpotSession \<Rightarrow> world \<Rightarrow> string \<Rightarrow> string option \<Rightarrow> string \<Rightarrow> int \<Rightarrow> string \<Rightarrow> string
     \<Rightarrow> (error + string) \<times> world" where
  "download_image net self w dataset uname0 kind number downloadPath0 downloadName0 =
     (case locate_image net self w dataset uname0 kind number of
        (Inl e, w2) \<Rightarrow> (Inl e, w2)
      | (Inr (filename, path, img), w2) \<Rightarrow>
          (let downloadPath1 = (if downloadPath0 = ''default'' then ''./'' else downloadPath0);
               downloadName = (if downloadName0 = ''default'' then filename else downloadName0)
           in case py_str_index downloadPath1 (- 1) of
                Inl e \<Rightarrow> (Inl e, w2)
              | Inr c \<Rightarrow>
                  (let downloadPath = (if c \<noteq> ''/'' then downloadPath1 @ ''/'' else downloadPath1)
                   in case path of
                        None \<Rightarrow> (Inl (UnboundLocalError ''path''), w2)
                      | Some p \<Rightarrow>
                          (case img of
                             JStr name \<Rightarrow>
                               (case session_send net w2 (image_request rawdata_url p name) of
                                  (Inl e, w3) \<Rightarrow> (Inl e, w3)
                                | (Inr r, w3) \<Rightarrow>
                                    (let fileLocation = downloadPath @ downloadName @ ''.tif''
                                     in case open_wb fileLocation w3 of
                                          Inl e \<Rightarrow> (Inl e, w3)
                                        | Inr w4 \<Rightarrow>
                                            (Inr fileLocation,
                                             py_print (PStr (''download  complete: '' @ fileLocation))
                                               (write_chunks fileLocation
                                                  (iter_content 512 (content r)) w4))))
                           | _ \<Rightarrow> (Inl TypeError, w2)))))"

text \<open>
  The file that \<^verbatim>\<open>download_image\<close> writes when \<^verbatim>\<open>downloadPath\<close> is not empty: the
  directory (\<^verbatim>\<open>./\<close> for the \<^verbatim>\<open>'default'\<close> sentinel, a \<^verbatim>\<open>/\<close> appended unless it is there),
  the name (the resolved filename for the \<^verbatim>\<open>'default'\<close> sentinel) and the extension.
\<close>

definition tif_location :: "string \<Rightarrow> string \<Rightarrow> string \<Rightarrow> string" where
  "tif_location downloadPath downloadName filename =
     (if downloadPath = ''default'' then ''./''
      else if last downloadPath = CHR ''/'' then downloadPath
      else downloadPath @ ''/'')
     @ (if downloadName = ''default'' then filename else downloadName)
     @ ''.tif''"

text \<open>
  \<^verbatim>\<open>
  def download_URLS(self, dataset, username='default', kind='raw', number=0):
      ... (the statements above, with URL_download = ".../als/hdf/image")
      URLstring = URL_download + path
      r = self.session.get(url=URLstring, params={"group": "/" + image})
      return r.json()
  \<close>
\<close>

definition image_url :: string where
  "image_url = ''https://portal-auth.nersc.gov/als/hdf/image''"

definition download_URLS ::
  "net \<Rightarrow> SpotSession \<Rightarrow> world \<Rightarrow> string \<Rightarrow> string option \<Rightarrow> string \<Rightarrow> int \<Rightarrow> (error + json) \<times> world" where
  "download_URLS net self w dataset uname0 kind number =
     (case locate_image net self w dataset uname0 kind number of
        (Inl e, w2) \<Rightarrow> (Inl e, w2)
      | (Inr (filename, path, img), w2) \<Rightarrow>
          (case path of
             None \<Rightarrow> (Inl (UnboundLocalError ''path''), w2)
           | Some p \<Rightarrow>
               (case img of
                  JStr name \<Rightarrow> get_json net w2 (image_request image_url p name)
                | _ \<Rightarrow> (Inl TypeError, w2))))"

section \<open>Helpers for the shared file system\<close>

text \<open>
  \<^verbatim>\<open>
  def list_from_txt(TextFilePath='../filepath/UnformatedFileList_Test.txt', comment='#'):
      if '.py' in TextFilePath:
          execfile(TextFilePath)
      else:
          textFile = open(TextFilePath, 'r')
          data = textFile.readlines()
          fileList = []
          for i in range(len(data)):
              data[i] = data[i].strip(" ")   # remove spaces
              data[i] = data[i].strip("\n")  # remove returns
              if data[i][0] != comment:
                  fileList.append(data[i])   # keep lines that are not commented
          return (fileList)
  \<close>
  A file opened in text mode is decoded with the platform's default encoding, which
  raises \<^verbatim>\<open>UnicodeDecodeError\<close> on bytes that are not valid in it, and is read with
  universal newlines (\<^verbatim>\<open>\r\n\<close> and \<^verbatim>\<open>\r\<close> arrive as \<^verbatim>\<open>\n\<close>); \<^verbatim>\<open>readlines\<close> cuts the text
  after every \<^verbatim>\<open>\n\<close>, keeping it. \<^verbatim>\<open>data[i][0]\<close> is the first character of the line, a
  string of length one, compared with the whole \<^verbatim>\<open>comment\<close> string. The module
  is Python 3 (\<^verbatim>\<open>print\<close> is called as a function with several arguments, \<^verbatim>\<open>input\<close>
  prompts for a name), where the name \<^verbatim>\<open>execfile\<close> is not defined.
\<close>

fun universal_newlines :: "string \<Rightarrow> string" where
  "universal_newlines [] = []"
| "universal_newlines [c] = (if c = CHR 0x0D then [CHR 0x0A] else [c])"
| "universal_newlines (c # d # cs) =
     (if c = CHR 0x0D \<and> d = CHR 0x0A then CHR 0x0A # universal_newlines cs
      else if c = CHR 0x0D then CHR 0x0A # universal_newlines (d # cs)
      else c # universal_newlines (d # cs))"

fun readlines :: "string \<Rightarrow> string list" where
  "readlines [] = []"
| "readlines (c # cs) =
     (if c = CHR 0x0A then [c] # readlines cs
      else (case readlines cs of
              [] \<Rightarrow> [[c]]
            | line # lines \<Rightarrow> (c # line) # lines))"

definition trim_line :: "string \<Rightarrow> string" where
  "trim_line line = strip_chars [CHR 0x0A] (strip_chars '' '' line)"

fun keep_lines :: "string list \<Rightarrow> string \<Rightarrow> string list \<Rightarrow> error + string list" where
  "keep_lines [] comment fileList = Inr fileList"
| "keep_lines (line # data) comment fileList =
     (case py_str_index (trim_line line) 0 of
        Inl e \<Rightarrow> Inl e
      | Inr c \<Rightarrow>
          keep_lines data comment
            (if c \<noteq> comment then fileList @ [trim_line line] else fileList))"

definition list_from_txt :: "world \<Rightarrow> string \<Rightarrow> string \<Rightarrow> error + string list" where
  "list_from_txt w TextFilePath comment =
     (if str_contains TextFilePath ''.py'' then Inl (NameError ''execfile'')
      else (case files w TextFilePath of
              None \<Rightarrow> Inl OSError
            | Some bytes \<Rightarrow>
                (case decode w bytes of
                   None \<Rightarrow> Inl UnicodeDecodeError
                 | Some text \<Rightarrow> keep_lines (readlines (universal_newlines text)) comment [])))"

text \<open>
  The module binds two strings at top level. Its other global names are the imported
  modules (\<^verbatim>\<open>os sys time logging np tomopy dxchange h5py glob getpass requests\<close>), the
  class \<^verbatim>\<open>SpotSession\<close> and the functions \<^verbatim>\<open>list_from_txt\<close>, \<^verbatim>\<open>list_h5_files\<close>,
  \<^verbatim>\<open>NERSC_ArchivePath\<close>, \<^verbatim>\<open>NERSC_StageData\<close>, \<^verbatim>\<open>NERSC_RetreiveData\<close>. A name that a
  function reads without ever assigning it is looked up there when the statement runs.
\<close>

definition NERSC_DefaultPath :: string where
  "NERSC_DefaultPath = ''/global/project/projectdirs/als/spade/warehouse/als/bl832/''"

definition userDefault :: string where
  "userDefault = ''hsbarnard''"

definition module_globals :: "(string \<times> string) list" where
  "module_globals = [(''NERSC_DefaultPath'', NERSC_DefaultPath), (''userDefault'', userDefault)]"

definition global_name :: "string \<Rightarrow> error + string" where
  "global_name name = (case map_of module_globals name of None \<Rightarrow> Inl (NameError name) | Some v \<Rightarrow> Inr v)"

text \<open>
  \<^verbatim>\<open>
  def NERSC_RetreiveData(filename, username, destinationpath, archivepath=NERSC_DefaultPath):
      if type(filename) != list:
          filename = [filename]
      filePathIn = []
      filePathOut = []
      for i in range(len(filename)):
          print(archivepath, useraccount, filename[i])
          filePathIn.append(archivepath + useraccount + "/" + filename[i] + "/raw/" + filename[i] + ".h5")
          filePathOut.append(destinationpath + filename[i] + ".h5")
      logging.info("file path list complete");
      print(filePathIn)
      logging.info("destination path list complete");
      print(filePathOut)
      for i in range(len(filename)):
          logging.info("begin transfer: " + filePathIn[i])
          os.system("cp " + filePathIn[i] + " " + filePathOut[i])
          logging.info("transfer complete: ")
  \<close>
  The parameter is called \<^verbatim>\<open>username\<close>; the body reads \<^verbatim>\<open>useraccount\<close>, which is
  neither a parameter nor a local, hence a global name.
\<close>

datatype names = Single string | Several "string list"

fun as_list :: "names \<Rightarrow> string list" where
  "as_list (Single f) = [f]"
| "as_list (Several fs) = fs"

fun path_loop ::
  "string list \<Rightarrow> string \<Rightarrow> string \<Rightarrow> string list \<Rightarrow> string list \<Rightarrow> world
     \<Rightarrow> (error + (string list \<times> string list)) \<times> world" where
  "path_loop [] archivepath destinationpath filePathIn filePathOut w =
     (Inr (filePathIn, filePathOut), w)"
| "path_loop (f # fs) archivepath destinationpath filePathIn filePathOut w =
     (case global_name ''useraccount'' of
        Inl e \<Rightarrow> (Inl e, w)
      | Inr useraccount \<Rightarrow>
          path_loop fs archivepath destinationpath
            (filePathIn @ [archivepath @ useraccount @ ''/'' @ f @ ''/raw/'' @ f @ ''.h5''])
            (filePathOut @ [destinationpath @ f @ ''.h5''])
            (py_print (PArgs [archivepath, useraccount, f]) w))"

definition os_system :: "string \<Rightarrow> world \<Rightarrow> world" where
  "os_system command w = w\<lparr>commands := commands w @ [command]\<rparr>"

fun copy_loop :: "string list \<Rightarrow> string list \<Rightarrow> world \<Rightarrow> world" where
  "copy_loop (src # srcs) (dst # dsts) w =
     copy_loop srcs dsts
       (py_print (PStr ''transfer complete: '')
          (os_system (''cp '' @ src @ '' '' @ dst)
             (py_print (PStr (''begin transfer: '' @ src)) w)))"
| "copy_loop _ _ w = w"

definition NERSC_RetreiveData :: "world \<Rightarrow> names \<Rightarrow> string \<Rightarrow> string \<Rightarrow> string \<Rightarrow> (error + unit) \<times> world" where
  "NERSC_RetreiveData w filename0 uname destinationpath archivepath =
     (case path_loop (as_list filename0) archivepath destinationpath [] [] w of
        (Inl e, w1) \<Rightarrow> (Inl e, w1)
      | (Inr (filePathIn, filePathOut), w1) \<Rightarrow>
          (Inr (),
           copy_loop filePathIn filePathOut
             (py_print (PList filePathOut)
                (py_print (PStr ''destination path list complete'')
                   (py_print (PList filePathIn)
                      (py_print (PStr ''file path list complete'') w1))))))"

section \<open>Concrete sessions and environments\<close>

text \<open>
  The object that \<^verbatim>\<open>SpotSession()\<close> constructs when called without a username, an
  empty world in which every path can be opened for writing and the default encoding is
  the \<^verbatim>\<open>ascii\<close> codec (every byte below 128 is the character itself, any other byte is
  an error; Python's default under the POSIX locale before version 3.7), and two
  stand-ins for the
  portal: one that answers every request with the JSON list \<^verbatim>\<open>[]\<close>, and a mock that
  serves a fixed list of derived datasets, a fixed image listing and one fixed response
  for everything else. No JSON parser is modelled, so \<open>content\<close> and \<open>decoded\<close> of a
  response are independent fields.
\<close>

definition alvarorh_session :: SpotSession where
  "alvarorh_session =
     \<lparr>URL_authentication = auth_url, username = ''alvarorh'', spot_username = ''alvarorh''\<rparr>"

definition ascii_codec :: "string \<Rightarrow> string option" where
  "ascii_codec bytes = (if list_all (\<lambda>b. \<not> digit7 b) bytes then Some bytes else None)"

definition empty_world :: world where
  "empty_world =
     \<lparr>log = [], files = Map.empty, writable = (\<lambda>location. True), decode = ascii_codec,
      stdout = [], commands = []\<rparr>"

definition portal_stub :: net where
  "portal_stub history rq = Some \<lparr>content = ''[]'', decoded = Some (JArr [])\<rparr>"

definition mock_portal :: "json \<Rightarrow> json \<Rightarrow> response \<Rightarrow> net" where
  "mock_portal derived images other history rq =
     (if url rq = ''https://portal-auth.nersc.gov/als/hdf/dataset''
        then Some \<lparr>content = [], decoded = Some derived\<rparr>
      else if prefix ''https://portal-auth.nersc.gov/als/hdf/listimages/'' (url rq)
        then Some \<lparr>content = [], decoded = Some images\<rparr>
      else Some other)"

section \<open>String lemmas\<close>

lemma str_contains_single: "str_contains s [c] = (c \<in> set s)"
  by (induction s) auto

lemma split_on_not_Nil: "split_on c s \<noteq> []"
  by (induction s) (auto split: list.splits)

lemma split_on_no_sep: "c \<notin> set s \<Longrightarrow> split_on c s = [s]"
  by (induction s) (auto split: list.splits)

lemma split_on_append_sep: "split_on c (xs @ c # ys) = split_on c xs @ split_on c ys"
  by (induction xs) (auto split: list.splits simp: split_on_not_Nil)

lemma length_split_on: "c \<in> set s \<Longrightarrow> 2 \<le> length (split_on c s)"
  by (induction s) (auto split: list.splits simp: split_on_not_Nil)

lemma py_index_last: "xs \<noteq> [] \<Longrightarrow> py_index xs (- 1) = Inr (last xs)"
proof (cases xs)
  case Nil
  assume "xs \<noteq> []"
  with Nil show ?thesis by simp
next
  case (Cons y ys)
  have "nat (int (length (y # ys)) + - 1) = length ys" by simp
  then show ?thesis
    unfolding Cons py_index_def by (simp add: last_conv_nth)
qed

lemma py_index_penultimate: "py_index (xs @ [a, b]) (- 2) = Inr a"
  by (simp add: py_index_def nth_append)

lemma py_index_first: "py_index xs 0 = (case xs of [] \<Rightarrow> Inl IndexError | x # _ \<Rightarrow> Inr x)"
  by (cases xs) (simp_all add: py_index_def)

lemma py_chars_eq_Nil: "(py_chars s = []) = (s = [])"
  by (cases s) simp_all

text \<open>The code point U+00E9 followed by \<^verbatim>\<open>a\<close>: two characters, the first of them two bytes
  long.\<close>

lemma py_chars_two_byte_character:
  "py_chars [CHR 0xC3, CHR 0xA9, CHR ''a''] = [[CHR 0xC3, CHR 0xA9], ''a'']"
  by (simp add: utf8_continuation_def)

lemma py_str_index_first:
  "py_str_index s 0 = (case py_chars s of [] \<Rightarrow> Inl IndexError | c # _ \<Rightarrow> Inr c)"
  by (simp add: py_str_index_def py_index_first)

lemma py_str_index_last: "s \<noteq> [] \<Longrightarrow> py_str_index s (- 1) = Inr (last (py_chars s))"
  by (simp add: py_str_index_def py_index_last py_chars_eq_Nil)

text \<open>The last character of a string is \<^verbatim>\<open>/\<close> exactly when its last byte is: an ASCII
  byte is never part of a longer character.\<close>

lemma last_py_chars_slash:
  "s \<noteq> [] \<Longrightarrow> (last (py_chars s) = ''/'') = (last s = CHR ''/'')"
proof (induction s rule: py_chars.induct)
  case 1
  then show ?case by simp
next
  case (2 c cs)
  let ?rest = "dropWhile utf8_continuation cs"
  have slash: "\<not> utf8_continuation (CHR ''/'')" by (simp add: utf8_continuation_def)
  show ?case
  proof (cases "?rest = []")
    case True
    then have conts: "\<forall>x\<in>set cs. utf8_continuation x" by (simp add: dropWhile_eq_Nil_conv)
    then have tk: "takeWhile utf8_continuation cs = cs" by (simp add: takeWhile_eq_all_conv)
    have pc: "py_chars (c # cs) = [c # cs]" by (simp only: py_chars.simps True tk)
    show ?thesis
    proof (cases "cs = []")
      case True
      then show ?thesis unfolding pc by simp
    next
      case False
      with conts slash have "last cs \<noteq> CHR ''/''" using last_in_set by metis
      with False show ?thesis unfolding pc by simp
    qed
  next
    case False
    then have ne: "py_chars ?rest \<noteq> []" by (simp add: py_chars_eq_Nil)
    have "cs = takeWhile utf8_continuation cs @ ?rest" by simp
    with False have "last cs = last ?rest" by (metis last_appendR)
    moreover from False have "cs \<noteq> []" by auto
    ultimately show ?thesis using "2.IH"[OF False] ne by simp
  qed
qed

text \<open>The constructor, called without a username against a portal that answers, builds
  \<^const>\<open>alvarorh_session\<close>, whatever the password.\<close>

lemma SpotSession_init_default:
  "fst (SpotSession_init portal_stub w ''default'' password typed) = Inr alvarorh_session"
  by (simp add: SpotSession_init_def session_send_def portal_stub_def alvarorh_session_def Let_def)

text \<open>The path resolver never raises: the two negative indices are in range whenever
  the identifier contains a separator.\<close>

lemma formatPath_total: "\<exists>filename uname. formatPath self d u = Inr (filename, uname)"
proof -
  have two: "py_index xs (- 2) = Inr (xs ! (length xs - 2))" if "2 \<le> length xs" for xs :: "string list"
    using that by (auto simp: py_index_def intro!: arg_cong[where f="nth xs"])
  have one: "py_index xs (- 1) = Inr (last xs)" if "2 \<le> length xs" for xs :: "string list"
    using that by (intro py_index_last) auto
  show ?thesis
    by (auto simp: formatPath_def Let_def str_contains_single two one length_split_on split: option.splits)
qed

lemma rstrip_append_all:
  "set e \<subseteq> set cs \<Longrightarrow> rstrip_chars cs (y @ e) = rstrip_chars cs y"
proof -
  assume "set e \<subseteq> set cs"
  then have "dropWhile (\<lambda>c. c \<in> set cs) (rev e @ rev y) = dropWhile (\<lambda>c. c \<in> set cs) (rev y)"
    by (intro dropWhile_append2) auto
  then show ?thesis by (simp add: rstrip_chars_def)
qed

lemma lstrip_append_all:
  "set e \<subseteq> set cs \<Longrightarrow> rstrip_chars cs (lstrip_chars cs (x @ e)) = rstrip_chars cs (lstrip_chars cs x)"
proof (cases "\<forall>c\<in>set x. c \<in> set cs")
  case True
  assume "set e \<subseteq> set cs"
  with True have "lstrip_chars cs (x @ e) = []" "lstrip_chars cs x = []"
    by (auto simp: lstrip_chars_def)
  then show ?thesis by simp
next
  case False
  assume e: "set e \<subseteq> set cs"
  from False have "lstrip_chars cs (x @ e) = lstrip_chars cs x @ e"
    by (auto simp: lstrip_chars_def dropWhile_append1)
  with e show ?thesis by (simp add: rstrip_append_all)
qed

lemma strip_chars_drops_suffix:
  "set e \<subseteq> set cs \<Longrightarrow> strip_chars cs (x @ e) = strip_chars cs x"
  by (simp add: strip_chars_def lstrip_append_all)

lemma strip_chars_id:
  assumes "d \<noteq> []" "hd d \<notin> set cs" "last d \<notin> set cs"
  shows "strip_chars cs d = d"
proof -
  from assms have "lstrip_chars cs d = d"
    by (cases d) (simp_all add: lstrip_chars_def)
  moreover from assms have "rstrip_chars cs d = d"
    by (cases "rev d") (auto simp: rstrip_chars_def hd_rev[symmetric] simp del: hd_rev)
  ultimately show ?thesis by (simp add: strip_chars_def)
qed

lemma strip_all_in: "set s \<subseteq> set cs \<Longrightarrow> strip_chars cs s = []"
proof -
  assume "set s \<subseteq> set cs"
  then have "lstrip_chars cs s = []"
    unfolding lstrip_chars_def dropWhile_eq_Nil_conv by blast
  then show ?thesis by (simp add: strip_chars_def rstrip_chars_def)
qed

section \<open>The path resolver\<close>

text \<open>
  Claim C1 states that every identifier \<^verbatim>\<open>u/f\<close> resolves to filename \<^verbatim>\<open>f\<close> and username
  \<^verbatim>\<open>u\<close>, also when the caller supplies no username. The first branch of \<^verbatim>\<open>formatPath\<close>
  decides otherwise: with the username omitted, \<^verbatim>\<open>None\<close> or \<^verbatim>\<open>'default'\<close> the identifier
  is not split at all, and the session's own username is returned.
\<close>

theorem formatPath_default_username_keeps_separator:
  "formatPath alvarorh_session ''u/f'' (Some ''default'') = Inr (''u/f'', ''alvarorh'')
   \<and> formatPath alvarorh_session ''u/f'' None = Inr (''u/f'', ''alvarorh'')
   \<and> Inr (''u/f'', ''alvarorh'') \<noteq> (Inr (''f'', ''u'') :: error + string \<times> string)"
  by (simp add: formatPath_def alvarorh_session_def strip_chars_def lstrip_chars_def rstrip_chars_def)

text \<open>
  Claim C1, amended. Let the identifier be \<open>d = p @ u @ ''/'' @ f\<close>, where \<open>u\<close> and \<open>f\<close>
  contain no separator and \<open>p\<close> is empty or ends in a separator (so \<open>f\<close> is the final
  segment and \<open>u\<close> the segment before the last separator), and let \<open>d\<close> neither begin nor
  end with one of the characters \<^verbatim>\<open>.\<close>, \<^verbatim>\<open>h\<close>, \<^verbatim>\<open>5\<close>. Then \<^verbatim>\<open>formatPath\<close> called with an
  explicit username other than \<^verbatim>\<open>'default'\<close> returns \<open>(f, u)\<close>; called with \<^verbatim>\<open>'default'\<close>
  or \<^verbatim>\<open>None\<close> it returns the unsplit identifier and the session's username.
\<close>

theorem formatPath_splits_with_explicit_username:
  assumes d: "d = p @ u @ ''/'' @ f"
    and p: "p = [] \<or> last p = CHR ''/''"
    and u: "CHR ''/'' \<notin> set u"
    and f: "CHR ''/'' \<notin> set f"
    and ends: "hd d \<notin> set ''.h5''" "last d \<notin> set ''.h5''"
  shows "(uname \<noteq> ''default'' \<longrightarrow> formatPath self d (Some uname) = Inr (f, u))
       \<and> formatPath self d (Some ''default'') = Inr (d, spot_username self)
       \<and> formatPath self d None = Inr (d, spot_username self)"
proof -
  from d have "d \<noteq> []" by simp
  with ends have s: "strip_chars ''.h5'' d = d" by (simp add: strip_chars_id)
  have c: "str_contains d ''/''" unfolding str_contains_single using d by simp
  have "\<exists>q. split_on (CHR ''/'') (p @ u) = q @ [u]"
  proof (cases "p = []")
    case True
    with u show ?thesis by (simp add: split_on_no_sep)
  next
    case False
    with p obtain p' where "p = p' @ ''/''" by (metis append_butlast_last_id)
    with u show ?thesis by (simp add: split_on_append_sep split_on_no_sep)
  qed
  then obtain q where "split_on (CHR ''/'') (p @ u) = q @ [u]" ..
  with f d have sp: "split_on (CHR ''/'') d = q @ [u, f]"
    using split_on_append_sep[of "CHR ''/''" "p @ u" f] by (simp add: split_on_no_sep)
  have l: "py_index (q @ [u, f]) (- 1) = Inr f"
    using py_index_last[of "q @ [u, f]"] by simp
  show ?thesis
    using s c sp l by (simp add: formatPath_def py_index_penultimate)
qed

theorem formatPath_splits_with_explicit_username_witness:
  "''als/alice/scan_01'' = ''als/'' @ ''alice'' @ ''/'' @ ''scan_01''
   \<and> last ''als/'' = CHR ''/''
   \<and> CHR ''/'' \<notin> set ''alice'' \<and> CHR ''/'' \<notin> set ''scan_01''
   \<and> hd ''als/alice/scan_01'' \<notin> set ''.h5'' \<and> last ''als/alice/scan_01'' \<notin> set ''.h5''
   \<and> ''bob'' \<noteq> ''default''
   \<and> formatPath alvarorh_session ''als/alice/scan_01'' (Some ''bob'') = Inr (''scan_01'', ''alice'')
   \<and> formatPath alvarorh_session ''als/alice/scan_01'' (Some ''default'')
       = Inr (''als/alice/scan_01'', ''alvarorh'')
   \<and> formatPath alvarorh_session ''als/alice/scan_01'' None = Inr (''als/alice/scan_01'', ''alvarorh'')"
  using formatPath_splits_with_explicit_username
          [where d="''als/alice/scan_01''" and p="''als/''" and u="''alice''" and f="''scan_01''"
             and uname="''bob''" and self=alvarorh_session]
  by (simp add: alvarorh_session_def)

text \<open>
  Claim C6: for every identifier ending in \<^verbatim>\<open>.h5\<close>, \<^verbatim>\<open>formatPath\<close> returns the same pair
  as for the identifier with that extension removed, whatever the username argument.
  The identifier ending in \<^verbatim>\<open>.h5\<close> is \<open>x @ ''.h5''\<close>, the one without it is \<open>x\<close>.
\<close>

theorem formatPath_h5_extension_irrelevant:
  "formatPath self (x @ ''.h5'') uname0 = formatPath self x uname0"
  by (simp add: formatPath_def strip_chars_drops_suffix)

text \<open>
  Claim C8 states that normalisation removes a trailing \<^verbatim>\<open>.h5\<close> and nothing else, so that
  an identifier without separator that does not end in \<^verbatim>\<open>.h5\<close> comes back unchanged.
  \<^verbatim>\<open>dataset.strip(".h5")\<close> removes characters, not a suffix: the identifier
  \<^verbatim>\<open>sample5\<close> satisfies the claim's conditions and loses its last character.
\<close>

theorem formatPath_strips_trailing_characters:
  "CHR ''/'' \<notin> set ''sample5'' \<and> \<not> suffix ''.h5'' ''sample5''
   \<and> formatPath self ''sample5'' (Some ''bob'') = Inr (''sample'', ''bob'')"
  by (simp add: formatPath_def strip_chars_def lstrip_chars_def rstrip_chars_def suffix_to_prefix)

section \<open>Reading a file list\<close>

text \<open>
  Claim C5 states that the text \<^verbatim>\<open>"a\n#b\n c \n"\<close> with comment prefix \<^verbatim>\<open>#\<close> yields
  \<^verbatim>\<open>["a", "c"]\<close>. The third line is \<^verbatim>\<open>" c \n"\<close>: \<^verbatim>\<open>strip(" ")\<close> runs while the newline
  is still the last character, so it removes the leading space only, and
  \<^verbatim>\<open>strip("\n")\<close> leaves \<^verbatim>\<open>"c "\<close>.
\<close>

theorem list_from_txt_keeps_trailing_space:
  "list_from_txt (empty_world\<lparr>files := [''list.txt'' \<mapsto> ''a\<newline>#b\<newline> c \<newline>'']\<rparr>) ''list.txt'' ''#''
   = Inr [''a'', ''c '']"
  by (simp add: list_from_txt_def empty_world_def ascii_codec_def trim_line_def py_str_index_first
      utf8_continuation_def strip_chars_def lstrip_chars_def rstrip_chars_def)

lemma readlines_shape:
  "l \<in> set (readlines t) \<Longrightarrow> l \<noteq> [] \<and> CHR 0x0A \<notin> set (butlast l)"
proof (induction t arbitrary: l)
  case Nil
  then show ?case by simp
next
  case (Cons c cs)
  show ?case
  proof (cases "c = CHR 0x0A")
    case True
    with Cons show ?thesis by auto
  next
    case False
    show ?thesis
    proof (cases "readlines cs")
      case Nil
      with False Cons.prems show ?thesis by simp
    next
      case (Cons line lines)
      with False Cons.prems Cons.IH[of line] Cons.IH[of l] show ?thesis
        by (auto simp: butlast.simps(2) split: if_splits)
    qed
  qed
qed

lemma blank_trim:
  assumes "l \<noteq> []" "CHR 0x0A \<notin> set (butlast l)" "set l \<subseteq> {CHR '' '', CHR 0x0A}"
  shows "trim_line l = []"
proof -
  from assms(1) have l: "l = butlast l @ [last l]" by simp
  have sp: "set (butlast l) \<subseteq> {CHR '' ''}"
    using assms(2,3) by (auto dest: in_set_butlastD)
  have "last l \<in> set l" using assms(1) by simp
  with assms(3) consider "last l = CHR '' ''" | "last l = CHR 0x0A" by auto
  then show ?thesis
  proof cases
    case 1
    have "set l = set (butlast l) \<union> {last l}" by (subst l) simp
    with sp 1 have "set l \<subseteq> set '' ''" by auto
    then show ?thesis by (simp add: trim_line_def strip_all_in)
  next
    case 2
    have "lstrip_chars '' '' l = [CHR 0x0A]"
    proof -
      have "dropWhile (\<lambda>c. c \<in> set '' '') (butlast l @ [last l])
            = dropWhile (\<lambda>c. c \<in> set '' '') [last l]"
        using sp by (intro dropWhile_append2) auto
      with 2 l show ?thesis by (simp add: lstrip_chars_def)
    qed
    then show ?thesis
      by (simp add: trim_line_def strip_chars_def rstrip_chars_def lstrip_chars_def)
  qed
qed

text \<open>A comment prefix outside ASCII is one character and is compared as such: the line
  that starts with it is skipped.\<close>

lemma keep_lines_non_ascii_comment:
  "keep_lines [[CHR 0xC3, CHR 0xA9, CHR ''b'', CHR 0x0A], ''a\<newline>''] [CHR 0xC3, CHR 0xA9] []
     = Inr [''a'']"
  by (simp add: py_str_index_first utf8_continuation_def trim_line_def
      strip_chars_def lstrip_chars_def rstrip_chars_def)

lemma keep_lines_blank:
  "\<exists>l\<in>set data. trim_line l = [] \<Longrightarrow> keep_lines data cmt acc = Inl IndexError"
  by (induction data arbitrary: acc) (auto simp: py_str_index_first split: list.splits)

text \<open>
  Claim C10 is stated for every input file with a blank line. Two steps come before the
  test of the first character and decide otherwise for some files: a path that contains
  \<^verbatim>\<open>.py\<close> (here a directory called \<^verbatim>\<open>runs.pyramid\<close>) takes the \<^verbatim>\<open>execfile\<close> branch and
  raises \<^verbatim>\<open>NameError\<close>, and a file whose bytes the default encoding rejects raises
  \<^verbatim>\<open>UnicodeDecodeError\<close> when it is read. Both files below contain a blank line.
\<close>

theorem list_from_txt_blank_line_other_errors:
  "[CHR 0x0A] \<in> set (readlines (universal_newlines ''a\<newline>\<newline>b\<newline>''))
   \<and> trim_line [CHR 0x0A] = []
   \<and> list_from_txt (empty_world\<lparr>files := [''runs.pyramid/list.txt'' \<mapsto> ''a\<newline>\<newline>b\<newline>'']\<rparr>)
         ''runs.pyramid/list.txt'' ''#''
       = Inl (NameError ''execfile'')
   \<and> list_from_txt (empty_world\<lparr>files := [''list.txt'' \<mapsto> CHR 0xFF # ''a\<newline>\<newline>b\<newline>'']\<rparr>)
         ''list.txt'' ''#''
       = Inl UnicodeDecodeError"
  by (simp add: list_from_txt_def empty_world_def ascii_codec_def trim_line_def
      strip_chars_def lstrip_chars_def rstrip_chars_def)

text \<open>
  Claim C10, amended. When the path does not contain \<^verbatim>\<open>.py\<close>, the file exists and its
  bytes decode in the default encoding, and the text has a line made of spaces and
  newline characters only, which is a line that trimming leaves empty, then
  \<^verbatim>\<open>list_from_txt\<close> raises \<^verbatim>\<open>IndexError\<close> at \<^verbatim>\<open>data[i][0]\<close>, whatever the comment prefix; it
  neither skips nor keeps the line.
\<close>

theorem list_from_txt_blank_line_IndexError:
  assumes "\<not> str_contains fpath ''.py''"
    and "files w fpath = Some bytes"
    and "decode w bytes = Some body"
    and "ln \<in> set (readlines (universal_newlines body))"
    and "set ln \<subseteq> {CHR '' '', CHR 0x0A}"
  shows "list_from_txt w fpath cmt = Inl IndexError"
proof -
  from assms(4) have "ln \<noteq> []" "CHR 0x0A \<notin> set (butlast ln)"
    using readlines_shape by blast+
  with assms(5) have "trim_line ln = []" by (simp add: blank_trim)
  with assms(4) have "keep_lines (readlines (universal_newlines body)) cmt [] = Inl IndexError"
    by (intro keep_lines_blank) blast
  with assms(1,2,3) show ?thesis by (simp add: list_from_txt_def)
qed

theorem list_from_txt_blank_line_IndexError_witness:
  "\<not> str_contains ''list.txt'' ''.py''
   \<and> files (empty_world\<lparr>files := [''list.txt'' \<mapsto> ''a\<newline>  \<newline>b\<newline>'']\<rparr>) ''list.txt''
       = Some ''a\<newline>  \<newline>b\<newline>''
   \<and> decode (empty_world\<lparr>files := [''list.txt'' \<mapsto> ''a\<newline>  \<newline>b\<newline>'']\<rparr>) ''a\<newline>  \<newline>b\<newline>''
       = Some ''a\<newline>  \<newline>b\<newline>''
   \<and> ''  \<newline>'' \<in> set (readlines (universal_newlines ''a\<newline>  \<newline>b\<newline>''))
   \<and> set ''  \<newline>'' \<subseteq> {CHR '' '', CHR 0x0A}
   \<and> list_from_txt (empty_world\<lparr>files := [''list.txt'' \<mapsto> ''a\<newline>  \<newline>b\<newline>'']\<rparr>) ''list.txt'' ''#''
       = Inl IndexError"
  using list_from_txt_blank_line_IndexError
          [where fpath="''list.txt''" and bytes="''a\<newline>  \<newline>b\<newline>''"
             and body="''a\<newline>  \<newline>b\<newline>''" and ln="''  \<newline>''"
             and w="empty_world\<lparr>files := [''list.txt'' \<mapsto> ''a\<newline>  \<newline>b\<newline>'']\<rparr>"
             and cmt="''#''"]
  by (simp add: empty_world_def ascii_codec_def)

section \<open>Bulk copy\<close>

text \<open>
  Claim C4 states that \<^verbatim>\<open>NERSC_RetreiveData\<close> builds, for each filename, the archive path
  and the destination path and copies one file per filename. The first statement of the
  loop body reads the global name \<^verbatim>\<open>useraccount\<close>, which the module never binds: with a
  single filename the call raises \<^verbatim>\<open>NameError\<close> before anything is printed, built or
  copied.
\<close>

theorem NERSC_RetreiveData_useraccount_unbound:
  "NERSC_RetreiveData empty_world (Several [''scan_01'']) ''hsbarnard'' ''/scratch/'' NERSC_DefaultPath
   = (Inl (NameError ''useraccount''), empty_world)"
  by (simp add: NERSC_RetreiveData_def global_name_def module_globals_def)

section \<open>Closing a session\<close>

lemma session_send_eq:
  "session_send net w rq =
     ((case net (log w) rq of None \<Rightarrow> Inl ConnectionError | Some r \<Rightarrow> Inr r),
      w\<lparr>log := log w @ [Req rq]\<rparr>)"
  by (simp add: session_send_def Let_def split: option.splits)

lemma get_json_eq:
  "get_json net w rq =
     ((case net (log w) rq of None \<Rightarrow> Inl ConnectionError | Some r \<Rightarrow> response_json r),
      w\<lparr>log := log w @ [Req rq]\<rparr>)"
  by (simp add: get_json_def session_send_eq split: option.splits)






section \<open>Resolving the derived dataset\<close>

lemma select_path_empty: "select_path (JArr []) kind = Inr None"
  by (simp add: select_path_def)

lemma list_images_eq:
  "list_images net self w dataset uname =
     ((case net (log w) (list_images_request dataset uname) of
         None \<Rightarrow> Inl ConnectionError | Some r \<Rightarrow> response_json r),
      w\<lparr>log := log w @ [Req (list_images_request dataset uname)]\<rparr>)"
  by (simp add: list_images_def get_json_eq)

lemma locate_image_after_derived:
  assumes "formatPath self dataset uname0 = Inr (filename, uname)"
    and "derived_datasets net self w filename = (Inr data_paths, w1)"
    and "select_path data_paths kind = Inr path"
  shows "locate_image net self w dataset uname0 kind number =
     ((case fst (list_images net self w1 filename uname) of
         Inl e \<Rightarrow> Inl e
       | Inr image_list \<Rightarrow>
           (case py_getitem_int image_list number of
              Inl e \<Rightarrow> Inl e
            | Inr img \<Rightarrow> Inr (filename, path, img))),
      w1\<lparr>log := log w1 @ [Req (list_images_request filename uname)]\<rparr>)"
  using assms by (simp add: locate_image_def list_images_eq split: sum.splits)

text \<open>
  Claim C3: when \<^verbatim>\<open>derived_datasets\<close> returns an empty list, \<^verbatim>\<open>download_image\<close> and
  \<^verbatim>\<open>download_URLS\<close> fail instead of building a request URL. The loop body never runs,
  so \<^verbatim>\<open>path\<close> stays unbound; both methods still request the image listing, and after
  that request nothing else happens in the world: no download request, no file. Both
  return an error; it is \<^verbatim>\<open>UnboundLocalError\<close> for \<^verbatim>\<open>path\<close> whenever the image lookup
  succeeds (and, for \<^verbatim>\<open>download_image\<close>, the directory argument is not empty), and the
  error of the earlier failing step otherwise.
\<close>

theorem empty_derived_datasets_fail:
  assumes fp: "formatPath self dataset uname0 = Inr (filename, uname)"
    and dd: "derived_datasets net self w filename = (Inr (JArr []), w1)"
  shows "snd (download_image net self w dataset uname0 kind number downloadPath downloadName)
           = w1\<lparr>log := log w1 @ [Req (list_images_request filename uname)]\<rparr>
       \<and> snd (download_URLS net self w dataset uname0 kind number)
           = w1\<lparr>log := log w1 @ [Req (list_images_request filename uname)]\<rparr>
       \<and> (\<exists>e. fst (download_image net self w dataset uname0 kind number downloadPath downloadName) = Inl e)
       \<and> (\<exists>e. fst (download_URLS net self w dataset uname0 kind number) = Inl e)
       \<and> (\<forall>imgs img. fst (list_images net self w1 filename uname) = Inr imgs
              \<longrightarrow> py_getitem_int imgs number = Inr img
              \<longrightarrow> fst (download_URLS net self w dataset uname0 kind number) = Inl (UnboundLocalError ''path'')
                  \<and> (downloadPath \<noteq> [] \<longrightarrow>
                       fst (download_image net self w dataset uname0 kind number downloadPath downloadName)
                         = Inl (UnboundLocalError ''path'')))"
proof -
  note loc = locate_image_after_derived[OF fp dd select_path_empty]
  have 1: "snd (download_image net self w dataset uname0 kind number downloadPath downloadName)
           = w1\<lparr>log := log w1 @ [Req (list_images_request filename uname)]\<rparr>"
    by (simp add: download_image_def loc Let_def split: sum.splits)
  have 2: "snd (download_URLS net self w dataset uname0 kind number)
           = w1\<lparr>log := log w1 @ [Req (list_images_request filename uname)]\<rparr>"
    by (simp add: download_URLS_def loc split: sum.splits)
  have 3: "\<exists>e. fst (download_image net self w dataset uname0 kind number downloadPath downloadName) = Inl e"
    by (simp add: download_image_def loc Let_def split: sum.splits)
  have 4: "\<exists>e. fst (download_URLS net self w dataset uname0 kind number) = Inl e"
    by (simp add: download_URLS_def loc split: sum.splits)
  have 5: "fst (download_URLS net self w dataset uname0 kind number) = Inl (UnboundLocalError ''path'')"
    if "fst (list_images net self w1 filename uname) = Inr imgs" "py_getitem_int imgs number = Inr img"
    for imgs img
    using that by (simp add: download_URLS_def loc)
  have 6: "fst (download_image net self w dataset uname0 kind number downloadPath downloadName) = Inl (UnboundLocalError ''path'')"
    if "fst (list_images net self w1 filename uname) = Inr imgs" "py_getitem_int imgs number = Inr img"
      "downloadPath \<noteq> []"
    for imgs img
  proof -
    have "\<exists>c. py_str_index (if downloadPath = ''default'' then ''./'' else downloadPath) (- 1) = Inr c"
      using that(3) py_str_index_last[of "if downloadPath = ''default'' then ''./'' else downloadPath"] by auto
    then show ?thesis
      using that by (auto simp add: download_image_def loc Let_def)
  qed
  from 1 2 3 4 5 6 show ?thesis by blast
qed

lemma formatPath_scan_01:
  "formatPath alvarorh_session ''scan_01'' (Some ''alice'') = Inr (''scan_01'', ''alice'')"
  by (simp add: formatPath_def strip_chars_def lstrip_chars_def rstrip_chars_def)

lemma list_images_request_scan_01:
  "list_images_request ''scan_01'' ''alice'' =
     \<lparr>meth = GET,
      url = ''https://portal-auth.nersc.gov/als/hdf/listimages/als/bl832/alice/scan_01/raw/scan_01.h5'',
      params = [], form = []\<rparr>"
  by (simp add: list_images_request_def strip_chars_def lstrip_chars_def rstrip_chars_def)

lemma derived_request_scan_01:
  "derived_request ''scan_01'' =
     \<lparr>meth = GET, url = ''https://portal-auth.nersc.gov/als/hdf/dataset'',
      params = [(''dataset'', JStr ''scan_01'')], form = []\<rparr>"
  by (simp add: derived_request_def strip_chars_def lstrip_chars_def rstrip_chars_def)

lemma mock_derived:
  "derived_datasets (mock_portal derived images other) alvarorh_session empty_world ''scan_01''
     = (Inr derived, empty_world\<lparr>log := [Req (derived_request ''scan_01'')]\<rparr>)"
  by (simp add: derived_datasets_def get_json_eq mock_portal_def response_json_def empty_world_def
      derived_request_def)

lemma mock_list_images:
  "list_images (mock_portal derived images other) alvarorh_session
       (empty_world\<lparr>log := [Req (derived_request ''scan_01'')]\<rparr>) ''scan_01'' ''alice''
     = (Inr images, empty_world\<lparr>log := [Req (derived_request ''scan_01''),
                                          Req (list_images_request ''scan_01'' ''alice'')]\<rparr>)"
  unfolding list_images_def get_json_eq list_images_request_scan_01
  by (simp add: mock_portal_def response_json_def empty_world_def)

theorem empty_derived_datasets_fail_witness:
  "formatPath alvarorh_session ''scan_01'' (Some ''alice'') = Inr (''scan_01'', ''alice'')
   \<and> derived_datasets (mock_portal (JArr []) (JArr [JStr ''img0.tif'']) \<lparr>content = ''II*'', decoded = None\<rparr>)
         alvarorh_session empty_world ''scan_01''
       = (Inr (JArr []), empty_world\<lparr>log := [Req (derived_request ''scan_01'')]\<rparr>)
   \<and> download_image (mock_portal (JArr []) (JArr [JStr ''img0.tif'']) \<lparr>content = ''II*'', decoded = None\<rparr>)
         alvarorh_session empty_world ''scan_01'' (Some ''alice'') ''norm'' 0 ''out'' ''default''
       = (Inl (UnboundLocalError ''path''),
          empty_world\<lparr>log := [Req (derived_request ''scan_01''),
                               Req (list_images_request ''scan_01'' ''alice'')]\<rparr>)
   \<and> download_URLS (mock_portal (JArr []) (JArr [JStr ''img0.tif'']) \<lparr>content = ''II*'', decoded = None\<rparr>)
         alvarorh_session empty_world ''scan_01'' (Some ''alice'') ''norm'' 0
       = (Inl (UnboundLocalError ''path''),
          empty_world\<lparr>log := [Req (derived_request ''scan_01''),
                               Req (list_images_request ''scan_01'' ''alice'')]\<rparr>)"
proof -
  let ?net = "mock_portal (JArr []) (JArr [JStr ''img0.tif'']) \<lparr>content = ''II*'', decoded = None\<rparr>"
  note dd = mock_derived[of "JArr []" "JArr [JStr ''img0.tif'']" "\<lparr>content = ''II*'', decoded = None\<rparr>"]
  note inst = empty_derived_datasets_fail[OF formatPath_scan_01 dd,
      where kind="''norm''" and number=0 and downloadPath="''out''" and downloadName="''default''"]
  have li: "fst (list_images ?net alvarorh_session (empty_world\<lparr>log := [Req (derived_request ''scan_01'')]\<rparr>)
                   ''scan_01'' ''alice'') = Inr (JArr [JStr ''img0.tif''])"
    by (simp add: mock_list_images)
  have im: "py_getitem_int (JArr [JStr ''img0.tif'']) 0 = Inr (JStr ''img0.tif'')"
    by (simp add: py_index_def)
  from inst li im
  have "snd (download_image ?net alvarorh_session empty_world ''scan_01'' (Some ''alice'') ''norm'' 0 ''out'' ''default'')
          = empty_world\<lparr>log := [Req (derived_request ''scan_01''), Req (list_images_request ''scan_01'' ''alice'')]\<rparr>"
    and "snd (download_URLS ?net alvarorh_session empty_world ''scan_01'' (Some ''alice'') ''norm'' 0)
          = empty_world\<lparr>log := [Req (derived_request ''scan_01''), Req (list_images_request ''scan_01'' ''alice'')]\<rparr>"
    and "fst (download_image ?net alvarorh_session empty_world ''scan_01'' (Some ''alice'') ''norm'' 0 ''out'' ''default'')
          = Inl (UnboundLocalError ''path'')"
    and "fst (download_URLS ?net alvarorh_session empty_world ''scan_01'' (Some ''alice'') ''norm'' 0)
          = Inl (UnboundLocalError ''path'')"
    by simp_all
  then show ?thesis
    using formatPath_scan_01 mock_derived[of "JArr []" "JArr [JStr ''img0.tif'']" "\<lparr>content = ''II*'', decoded = None\<rparr>"]
    by (simp add: prod_eq_iff)
qed

lemma concat_iter_content: "0 < n \<Longrightarrow> concat (iter_content n body) = body"
proof (induction n body rule: iter_content.induct)
  case (1 chunk_size body)
  then show ?case by (subst iter_content.simps) auto
qed

lemma write_chunks_files:
  "files w location = Some old \<Longrightarrow>
   write_chunks location chunks w = w\<lparr>files := (files w)(location \<mapsto> old @ concat chunks)\<rparr>"
proof (induction chunks arbitrary: w old)
  case Nil
  then show ?case by (simp add: map_upd_triv)
next
  case (Cons chunk chunks)
  show ?case
  proof (cases "chunk = []")
    case True
    with Cons show ?thesis by simp
  next
    case False
    have written: "files (file_write location chunk w) location = Some (old @ chunk)"
      using Cons.prems by (simp add: file_write_def)
    have "write_chunks location (chunk # chunks) w = write_chunks location chunks (file_write location chunk w)"
      using False by simp
    also from Cons.IH[OF written]
    have "write_chunks location chunks (file_write location chunk w)
          = (file_write location chunk w)\<lparr>files := (files (file_write location chunk w))(location \<mapsto> (old @ chunk) @ concat chunks)\<rparr>" .
    also have "\<dots> = w\<lparr>files := (files w)(location \<mapsto> old @ concat (chunk # chunks))\<rparr>"
      using Cons.prems by (simp add: file_write_def)
    finally show ?thesis .
  qed
qed

lemma write_chunks_fresh:
  assumes "files w location = Some []"
  shows "write_chunks location (iter_content 512 body) w = w\<lparr>files := (files w)(location \<mapsto> body)\<rparr>"
  using write_chunks_files[OF assms, of "iter_content 512 body"]
  by (simp add: concat_iter_content)

lemma download_image_resolved:
  assumes fp: "formatPath self dataset uname0 = Inr (filename, uname)"
    and dd: "derived_datasets net self w filename = (Inr data_paths, w1)"
    and sp: "select_path data_paths kind = Inr (Some p)"
    and li: "list_images net self w1 filename uname = (Inr imgs, w2)"
    and im: "py_getitem_int imgs number = Inr (JStr name)"
    and dp: "downloadPath \<noteq> []"
  shows "download_image net self w dataset uname0 kind number downloadPath downloadName =
     (case net (log w2) (image_request rawdata_url p name) of
        None \<Rightarrow> (Inl ConnectionError, w2\<lparr>log := log w2 @ [Req (image_request rawdata_url p name)]\<rparr>)
      | Some r \<Rightarrow>
          if writable w2 (tif_location downloadPath downloadName filename)
          then (Inr (tif_location downloadPath downloadName filename),
                w2\<lparr>log := log w2 @ [Req (image_request rawdata_url p name)],
                   files := (files w2)(tif_location downloadPath downloadName filename \<mapsto> content r),
                   stdout := stdout w2 @ [PStr (''download  complete: '' @ tif_location downloadPath downloadName filename)]\<rparr>)
          else (Inl OSError, w2\<lparr>log := log w2 @ [Req (image_request rawdata_url p name)]\<rparr>))"
proof -
  from li have w2: "w2 = w1\<lparr>log := log w1 @ [Req (list_images_request filename uname)]\<rparr>"
    and li': "fst (list_images net self w1 filename uname) = Inr imgs"
    by (simp_all add: list_images_eq)
  have loc: "locate_image net self w dataset uname0 kind number = (Inr (filename, Some p, JStr name), w2)"
    using locate_image_after_derived[OF fp dd sp, of number] li' im w2 by simp
  define d1 where "d1 = (if downloadPath = ''default'' then ''./'' else downloadPath)"
  have d1: "d1 \<noteq> []" using dp by (simp add: d1_def)
  then have idx: "py_str_index d1 (- 1) = Inr (last (py_chars d1))" by (rule py_str_index_last)
  have "tif_location downloadPath downloadName filename
      = (if last d1 \<noteq> CHR ''/'' then d1 @ ''/'' else d1)
        @ (if downloadName = ''default'' then filename else downloadName) @ ''.tif''"
    by (simp add: tif_location_def d1_def)
  then have tl: "tif_location downloadPath downloadName filename
      = (if last (py_chars d1) \<noteq> ''/'' then d1 @ ''/'' else d1)
        @ (if downloadName = ''default'' then filename else downloadName) @ ''.tif''"
    by (simp only: last_py_chars_slash[OF d1])
  show ?thesis
  proof (cases "net (log w2) (image_request rawdata_url p name)")
    case None
    then show ?thesis
      using idx by (simp add: download_image_def loc Let_def d1_def[symmetric] session_send_eq)
  next
    case (Some r)
    show ?thesis
    proof (cases "writable w2 (tif_location downloadPath downloadName filename)")
      case False
      then show ?thesis
        using idx Some
        by (simp add: download_image_def loc Let_def d1_def[symmetric] session_send_eq open_wb_def tl[symmetric])
    next
      case True
      then show ?thesis
        using idx Some
        by (simp add: download_image_def loc Let_def d1_def[symmetric] session_send_eq tl[symmetric]
            open_wb_def write_chunks_fresh py_print_def)
    qed
  qed
qed

lemma scan_paths_no_match:
  assumes nomatch: "\<forall>e\<in>set entries. \<exists>kvs p. e = JObj kvs \<and> map_of kvs ''path'' = Some (JStr p)
                      \<and> \<not> str_contains p kind"
    and lastp: "py_getitem_str (last entries) ''path'' = Inr (JStr plast)"
  shows "i + k = length entries \<Longrightarrow> 0 < k \<Longrightarrow> scan_paths (JArr entries) kind i k acc = Inr (Some plast)"
proof (induction k arbitrary: i acc)
  case 0
  then show ?case by simp
next
  case (Suc k)
  then have i: "i < length entries" by simp
  then have "entries ! i \<in> set entries" by simp
  with nomatch obtain kvs p where e: "entries ! i = JObj kvs" "map_of kvs ''path'' = Some (JStr p)"
    "\<not> str_contains p kind" by blast
  from i have get: "py_getitem_int (JArr entries) (int i) = Inr (JObj kvs)"
    by (simp add: py_index_def e(1))
  show ?case
  proof (cases "k = 0")
    case True
    with Suc.prems have "i = length entries - 1" by simp
    moreover from i have "entries \<noteq> []" by auto
    ultimately have "entries ! i = last entries" by (simp add: last_conv_nth)
    with e lastp have "p = plast" by simp
    with True get e show ?thesis by simp
  next
    case False
    with Suc.prems Suc.IH[of "Suc i" "Some p"] have "scan_paths (JArr entries) kind (Suc i) k (Some p) = Inr (Some plast)"
      by simp
    with get e show ?thesis by simp
  qed
qed

text \<open>The scan stops at the first record whose path contains \<^verbatim>\<open>kind\<close>.\<close>

lemma select_path_stops_at_match:
  "select_path (JArr [JObj [(''path'', JStr ''/a/sino.h5'')], JObj [(''path'', JStr ''/a/gridrec.h5'')]])
     ''sino'' = Inr (Some ''/a/sino.h5'')"
  by (simp add: select_path_def py_index_def)

lemma select_path_no_match:
  assumes "entries \<noteq> []"
    and "\<forall>e\<in>set entries. \<exists>kvs p. e = JObj kvs \<and> map_of kvs ''path'' = Some (JStr p)
            \<and> \<not> str_contains p kind"
    and "py_getitem_str (last entries) ''path'' = Inr (JStr plast)"
  shows "select_path (JArr entries) kind = Inr (Some plast)"
  using assms scan_paths_no_match[of entries kind plast 0 "length entries" None]
  by (simp add: select_path_def)

text \<open>
  Claim C9 states that with a non-empty list of records none of whose paths contains
  \<^verbatim>\<open>kind\<close>, both methods use the last path for the subsequent request and no error is
  signalled. The path is indeed selected without error, but the request is only reached
  when the steps between the loop and the request succeed: with an image index out of
  range \<^verbatim>\<open>download_URLS\<close> raises \<^verbatim>\<open>IndexError\<close>, and so does \<^verbatim>\<open>download_image\<close> with an
  empty directory argument; in both cases the image listing is the last request made.
\<close>

theorem unmatched_kind_request_not_reached:
  "\<not> str_contains ''/a/sino.h5'' ''norm'' \<and> \<not> str_contains ''/a/gridrec.h5'' ''norm''
   \<and> download_URLS
       (mock_portal (JArr [JObj [(''kind'', JStr ''sino''), (''path'', JStr ''/a/sino.h5'')],
                     JObj [(''kind'', JStr ''gridrec''), (''path'', JStr ''/a/gridrec.h5'')]])
              (JArr [JStr ''img0.tif'']) \<lparr>content = ''II*'', decoded = Some (JObj [])\<rparr>)
       alvarorh_session empty_world ''scan_01'' (Some ''alice'') ''norm'' 5
     = (Inl IndexError,
        empty_world\<lparr>log := [Req (derived_request ''scan_01''),
                             Req (list_images_request ''scan_01'' ''alice'')]\<rparr>)
   \<and> download_image
       (mock_portal (JArr [JObj [(''kind'', JStr ''sino''), (''path'', JStr ''/a/sino.h5'')],
                     JObj [(''kind'', JStr ''gridrec''), (''path'', JStr ''/a/gridrec.h5'')]])
              (JArr [JStr ''img0.tif'']) \<lparr>content = ''II*'', decoded = Some (JObj [])\<rparr>)
       alvarorh_session empty_world ''scan_01'' (Some ''alice'') ''norm'' 0 [] ''default''
     = (Inl IndexError,
        empty_world\<lparr>log := [Req (derived_request ''scan_01''),
                             Req (list_images_request ''scan_01'' ''alice'')]\<rparr>)"
  by (simp add: download_URLS_def download_image_def locate_image_def formatPath_scan_01
      mock_derived mock_list_images select_path_def py_str_index_def py_index_def)

text \<open>
  Claim C9, amended. When the derived datasets are a non-empty list of records whose
  \<^verbatim>\<open>path\<close> strings all lack \<^verbatim>\<open>kind\<close>, the loop ends without error with \<^verbatim>\<open>path\<close> bound to
  the path of the last record; no match is required. When moreover the image listing
  succeeds and holds a string at index \<^verbatim>\<open>number\<close>, \<^verbatim>\<open>download_URLS\<close> sends its GET to the
  image endpoint followed by that last path, with group parameter \<^verbatim>\<open>/\<close> + image, and
  returns what that request returns; and \<^verbatim>\<open>download_image\<close>, given a non-empty directory
  argument, sends its GET to the rawdata endpoint followed by that last path, with the
  same group parameter, and returns the file location once the portal has answered and
  the file could be opened.
\<close>

theorem unmatched_kind_uses_last_path:
  assumes fp: "formatPath self dataset uname0 = Inr (filename, uname)"
    and dd: "derived_datasets net self w filename = (Inr (JArr entries), w1)"
    and ne: "entries \<noteq> []"
    and nomatch: "\<forall>e\<in>set entries. \<exists>kvs p. e = JObj kvs \<and> map_of kvs ''path'' = Some (JStr p)
                    \<and> \<not> str_contains p kind"
    and lastp: "py_getitem_str (last entries) ''path'' = Inr (JStr plast)"
    and li: "list_images net self w1 filename uname = (Inr imgs, w2)"
    and im: "py_getitem_int imgs number = Inr (JStr name)"
  shows "select_path (JArr entries) kind = Inr (Some plast)
       \<and> download_URLS net self w dataset uname0 kind number
           = ((case net (log w2)
                      \<lparr>meth = GET, url = ''https://portal-auth.nersc.gov/als/hdf/image'' @ plast,
                       params = [(''group'', JStr (''/'' @ name))], form = []\<rparr> of
                 None \<Rightarrow> Inl ConnectionError
               | Some r \<Rightarrow> (case decoded r of None \<Rightarrow> Inl JSONDecodeError | Some j \<Rightarrow> Inr j)),
              w2\<lparr>log := log w2 @
                 [Req \<lparr>meth = GET, url = ''https://portal-auth.nersc.gov/als/hdf/image'' @ plast,
                       params = [(''group'', JStr (''/'' @ name))], form = []\<rparr>]\<rparr>)
       \<and> (downloadPath \<noteq> [] \<longrightarrow>
            log (snd (download_image net self w dataset uname0 kind number downloadPath downloadName))
              = log w2 @
                 [Req \<lparr>meth = GET, url = ''https://portal-auth.nersc.gov/als/hdf/rawdata'' @ plast,
                       params = [(''group'', JStr (''/'' @ name))], form = []\<rparr>]
            \<and> (\<forall>r. net (log w2)
                       \<lparr>meth = GET, url = ''https://portal-auth.nersc.gov/als/hdf/rawdata'' @ plast,
                        params = [(''group'', JStr (''/'' @ name))], form = []\<rparr> = Some r
                  \<longrightarrow> writable w2 (tif_location downloadPath downloadName filename)
                  \<longrightarrow> fst (download_image net self w dataset uname0 kind number downloadPath downloadName)
                        = Inr (tif_location downloadPath downloadName filename)))"
proof -
  note sp = select_path_no_match[OF ne nomatch lastp]
  from li have w2: "w2 = w1\<lparr>log := log w1 @ [Req (list_images_request filename uname)]\<rparr>"
    and li': "fst (list_images net self w1 filename uname) = Inr imgs"
    by (simp_all add: list_images_eq)
  have loc: "locate_image net self w dataset uname0 kind number = (Inr (filename, Some plast, JStr name), w2)"
    using locate_image_after_derived[OF fp dd sp, of number] li' im w2 by simp
  have rq1: "image_request image_url plast name
      = \<lparr>meth = GET, url = ''https://portal-auth.nersc.gov/als/hdf/image'' @ plast,
         params = [(''group'', JStr (''/'' @ name))], form = []\<rparr>"
    by (simp add: image_request_def image_url_def)
  have rq2: "image_request rawdata_url plast name
      = \<lparr>meth = GET, url = ''https://portal-auth.nersc.gov/als/hdf/rawdata'' @ plast,
         params = [(''group'', JStr (''/'' @ name))], form = []\<rparr>"
    by (simp add: image_request_def rawdata_url_def)
  have "download_URLS net self w dataset uname0 kind number
           = get_json net w2 (image_request image_url plast name)"
    by (simp add: download_URLS_def loc)
  then have urls: "download_URLS net self w dataset uname0 kind number
           = ((case net (log w2)
                      \<lparr>meth = GET, url = ''https://portal-auth.nersc.gov/als/hdf/image'' @ plast,
                       params = [(''group'', JStr (''/'' @ name))], form = []\<rparr> of
                 None \<Rightarrow> Inl ConnectionError
               | Some r \<Rightarrow> (case decoded r of None \<Rightarrow> Inl JSONDecodeError | Some j \<Rightarrow> Inr j)),
              w2\<lparr>log := log w2 @
                 [Req \<lparr>meth = GET, url = ''https://portal-auth.nersc.gov/als/hdf/image'' @ plast,
                       params = [(''group'', JStr (''/'' @ name))], form = []\<rparr>]\<rparr>)"
    unfolding get_json_eq rq1 by (simp add: response_json_def split: option.splits)
  note img = download_image_resolved[OF fp dd sp li im, unfolded rq2]
  have lg: "log (snd (download_image net self w dataset uname0 kind number downloadPath downloadName))
              = log w2 @
                 [Req \<lparr>meth = GET, url = ''https://portal-auth.nersc.gov/als/hdf/rawdata'' @ plast,
                       params = [(''group'', JStr (''/'' @ name))], form = []\<rparr>]"
    if "downloadPath \<noteq> []"
    by (simp add: img[OF that] split: option.splits)
  have ok: "fst (download_image net self w dataset uname0 kind number downloadPath downloadName)
              = Inr (tif_location downloadPath downloadName filename)"
    if "downloadPath \<noteq> []"
       "net (log w2) \<lparr>meth = GET, url = ''https://portal-auth.nersc.gov/als/hdf/rawdata'' @ plast,
                        params = [(''group'', JStr (''/'' @ name))], form = []\<rparr> = Some r"
       "writable w2 (tif_location downloadPath downloadName filename)" for r
    using that(2,3) by (simp add: img[OF that(1)])
  from sp urls lg ok show ?thesis by blast
qed

theorem unmatched_kind_uses_last_path_witness:
  "derived_datasets
       (mock_portal (JArr [JObj [(''kind'', JStr ''sino''), (''path'', JStr ''/a/sino.h5'')],
                     JObj [(''kind'', JStr ''gridrec''), (''path'', JStr ''/a/gridrec.h5'')]])
              (JArr [JStr ''img0.tif'']) \<lparr>content = ''II*'', decoded = Some (JObj [])\<rparr>)
       alvarorh_session empty_world ''scan_01''
     = (Inr (JArr [JObj [(''kind'', JStr ''sino''), (''path'', JStr ''/a/sino.h5'')],
                   JObj [(''kind'', JStr ''gridrec''), (''path'', JStr ''/a/gridrec.h5'')]]),
        empty_world\<lparr>log := [Req (derived_request ''scan_01'')]\<rparr>)
   \<and> \<not> str_contains ''/a/sino.h5'' ''norm'' \<and> \<not> str_contains ''/a/gridrec.h5'' ''norm''
   \<and> download_URLS
       (mock_portal (JArr [JObj [(''kind'', JStr ''sino''), (''path'', JStr ''/a/sino.h5'')],
                     JObj [(''kind'', JStr ''gridrec''), (''path'', JStr ''/a/gridrec.h5'')]])
              (JArr [JStr ''img0.tif'']) \<lparr>content = ''II*'', decoded = Some (JObj [])\<rparr>)
       alvarorh_session empty_world ''scan_01'' (Some ''alice'') ''norm'' 0
     = (Inr (JObj []),
        empty_world\<lparr>log := [Req (derived_request ''scan_01''),
                             Req (list_images_request ''scan_01'' ''alice''),
                             Req \<lparr>meth = GET,
                                  url = ''https://portal-auth.nersc.gov/als/hdf/image/a/gridrec.h5'',
                                  params = [(''group'', JStr ''/img0.tif'')], form = []\<rparr>]\<rparr>)
   \<and> log (snd (download_image
       (mock_portal (JArr [JObj [(''kind'', JStr ''sino''), (''path'', JStr ''/a/sino.h5'')],
                     JObj [(''kind'', JStr ''gridrec''), (''path'', JStr ''/a/gridrec.h5'')]])
              (JArr [JStr ''img0.tif'']) \<lparr>content = ''II*'', decoded = Some (JObj [])\<rparr>)
       alvarorh_session empty_world ''scan_01'' (Some ''alice'') ''norm'' 0 ''out'' ''default''))
     = [Req (derived_request ''scan_01''),
        Req (list_images_request ''scan_01'' ''alice''),
        Req \<lparr>meth = GET, url = ''https://portal-auth.nersc.gov/als/hdf/rawdata/a/gridrec.h5'',
             params = [(''group'', JStr ''/img0.tif'')], form = []\<rparr>]
   \<and> fst (download_image
       (mock_portal (JArr [JObj [(''kind'', JStr ''sino''), (''path'', JStr ''/a/sino.h5'')],
                     JObj [(''kind'', JStr ''gridrec''), (''path'', JStr ''/a/gridrec.h5'')]])
              (JArr [JStr ''img0.tif'']) \<lparr>content = ''II*'', decoded = Some (JObj [])\<rparr>)
       alvarorh_session empty_world ''scan_01'' (Some ''alice'') ''norm'' 0 ''out'' ''default'')
     = Inr ''out/scan_01.tif''"
proof -
  let ?entries = "[JObj [(''kind'', JStr ''sino''), (''path'', JStr ''/a/sino.h5'')],
                   JObj [(''kind'', JStr ''gridrec''), (''path'', JStr ''/a/gridrec.h5'')]]"
  let ?other = "\<lparr>content = ''II*'', decoded = Some (JObj [])\<rparr>"
  let ?net = "mock_portal (JArr ?entries) (JArr [JStr ''img0.tif'']) ?other"
  let ?w2 = "empty_world\<lparr>log := [Req (derived_request ''scan_01''),
                                    Req (list_images_request ''scan_01'' ''alice'')]\<rparr>"
  note dd = mock_derived[of "JArr ?entries" "JArr [JStr ''img0.tif'']" ?other]
  note li = mock_list_images[of "JArr ?entries" "JArr [JStr ''img0.tif'']" ?other]
  have ne: "?entries \<noteq> []" by simp
  have no: "\<not> str_contains ''/a/sino.h5'' ''norm''" "\<not> str_contains ''/a/gridrec.h5'' ''norm''"
    by simp_all
  then have nomatch: "\<forall>e\<in>set ?entries. \<exists>kvs p. e = JObj kvs \<and> map_of kvs ''path'' = Some (JStr p)
                    \<and> \<not> str_contains p ''norm''"
    by simp
  have lastp: "py_getitem_str (last ?entries) ''path'' = Inr (JStr ''/a/gridrec.h5'')" by simp
  have im: "py_getitem_int (JArr [JStr ''img0.tif'']) 0 = Inr (JStr ''img0.tif'')"
    by (simp add: py_index_def)
  note inst = unmatched_kind_uses_last_path[OF formatPath_scan_01 dd ne nomatch lastp li im,
      where downloadPath="''out''" and downloadName="''default''"]
  have answer: "?net (log ?w2) rq = Some ?other" if "\<not> prefix ''https://portal-auth.nersc.gov/als/hdf/listimages/'' (url rq)"
     "url rq \<noteq> ''https://portal-auth.nersc.gov/als/hdf/dataset''" for rq
    using that by (simp add: mock_portal_def)
  let ?rq1 = "\<lparr>meth = GET, url = ''https://portal-auth.nersc.gov/als/hdf/image'' @ ''/a/gridrec.h5'',
                params = [(''group'', JStr (''/'' @ ''img0.tif''))], form = []\<rparr>"
  let ?rq2 = "\<lparr>meth = GET, url = ''https://portal-auth.nersc.gov/als/hdf/rawdata'' @ ''/a/gridrec.h5'',
                params = [(''group'', JStr (''/'' @ ''img0.tif''))], form = []\<rparr>"
  have a1: "?net (log ?w2) ?rq1 = Some ?other"
    by (rule answer) simp_all
  have a2: "?net (log ?w2) ?rq2 = Some ?other"
    by (rule answer) simp_all
  have wr: "writable ?w2 (tif_location ''out'' ''default'' ''scan_01'')"
    by (simp add: empty_world_def)
  have tl: "tif_location ''out'' ''default'' ''scan_01'' = ''out/scan_01.tif''"
    by (simp add: tif_location_def)
  have dp: "''out'' \<noteq> []" by simp
  note u = inst[THEN conjunct2, THEN conjunct1]
  note img = inst[THEN conjunct2, THEN conjunct2, THEN mp, OF dp]
  have u': "download_URLS ?net alvarorh_session empty_world ''scan_01'' (Some ''alice'') ''norm'' 0
       = (Inr (JObj []),
        empty_world\<lparr>log := [Req (derived_request ''scan_01''),
                             Req (list_images_request ''scan_01'' ''alice''),
                             Req \<lparr>meth = GET,
                                  url = ''https://portal-auth.nersc.gov/als/hdf/image/a/gridrec.h5'',
                                  params = [(''group'', JStr ''/img0.tif'')], form = []\<rparr>]\<rparr>)"
    unfolding u a1 by simp
  have l: "log (snd (download_image ?net alvarorh_session empty_world ''scan_01'' (Some ''alice'')
                         ''norm'' 0 ''out'' ''default''))
       = [Req (derived_request ''scan_01''),
          Req (list_images_request ''scan_01'' ''alice''),
          Req \<lparr>meth = GET, url = ''https://portal-auth.nersc.gov/als/hdf/rawdata/a/gridrec.h5'',
               params = [(''group'', JStr ''/img0.tif'')], form = []\<rparr>]"
    unfolding img[THEN conjunct1] by simp
  have f: "fst (download_image ?net alvarorh_session empty_world ''scan_01'' (Some ''alice'')
                         ''norm'' 0 ''out'' ''default'') = Inr ''out/scan_01.tif''"
    using img[THEN conjunct2, rule_format, OF a2 wr] by (simp only: tl)
  show ?thesis
    using dd no u' l f by simp
qed

text \<open>
  Claim C7 lets the directory argument range over all strings. \<^verbatim>\<open>downloadPath[-1]\<close> is
  evaluated before the download request is made, and it raises \<^verbatim>\<open>IndexError\<close> on the
  empty string: in the scenario of the claim, with \<^verbatim>\<open>downloadPath = ""\<close>, no download GET
  is issued and no file is written.
\<close>

theorem download_image_empty_directory:
  "download_image
       (mock_portal (JArr [JObj [(''kind'', JStr ''norm''), (''path'', JStr ''/p1'')]])
              (JArr [JStr ''img0.tif'', JStr ''img1.tif'']) \<lparr>content = ''II*'', decoded = None\<rparr>)
       alvarorh_session empty_world ''scan_01'' (Some ''alice'') ''norm'' 1 [] ''slice''
     = (Inl IndexError,
        empty_world\<lparr>log := [Req (derived_request ''scan_01''),
                             Req (list_images_request ''scan_01'' ''alice'')]\<rparr>)"
  by (simp add: download_image_def locate_image_def formatPath_scan_01 mock_derived mock_list_images
      select_path_def py_str_index_def py_index_def)

text \<open>
  Claim C7, amended. If \<^verbatim>\<open>derived_datasets\<close> returns the single record
  \<^verbatim>\<open>{kind: "norm", path: "/p1"}\<close> (a dict in which these two keys have these values) and \<^verbatim>\<open>list_images\<close> returns \<^verbatim>\<open>["img0.tif", "img1.tif"]\<close>,
  then for every non-empty directory argument \<^verbatim>\<open>download_image(d, u, "norm", 1, dir, name)\<close>
  issues its download GET against the rawdata endpoint with path \<^verbatim>\<open>/p1\<close> and group
  parameter \<^verbatim>\<open>/img1.tif\<close>; and when the portal answers that request and the destination
  can be opened for writing, it writes exactly the response body to the file
  \<open>tif_location dir name filename\<close>, prints the completion message and returns that
  location.
\<close>

theorem download_image_scenario:
  assumes fp: "formatPath self dataset uname0 = Inr (filename, uname)"
    and dd: "derived_datasets net self w filename = (Inr (JArr [JObj entry]), w1)"
    and kd: "map_of entry ''kind'' = Some (JStr ''norm'')"
    and pt: "map_of entry ''path'' = Some (JStr ''/p1'')"
    and li: "list_images net self w1 filename uname = (Inr (JArr [JStr ''img0.tif'', JStr ''img1.tif'']), w2)"
    and dp: "downloadPath \<noteq> []"
  shows "log (snd (download_image net self w dataset uname0 ''norm'' 1 downloadPath downloadName))
           = log w2 @ [Req \<lparr>meth = GET, url = ''https://portal-auth.nersc.gov/als/hdf/rawdata'' @ ''/p1'',
                            params = [(''group'', JStr ''/img1.tif'')], form = []\<rparr>]
       \<and> (\<forall>r. net (log w2) (image_request rawdata_url ''/p1'' ''img1.tif'') = Some r
              \<longrightarrow> writable w2 (tif_location downloadPath downloadName filename)
              \<longrightarrow> download_image net self w dataset uname0 ''norm'' 1 downloadPath downloadName
                    = (Inr (tif_location downloadPath downloadName filename),
                       w2\<lparr>log := log w2 @ [Req (image_request rawdata_url ''/p1'' ''img1.tif'')],
                          files := (files w2)(tif_location downloadPath downloadName filename \<mapsto> content r),
                          stdout := stdout w2
                            @ [PStr (''download  complete: '' @ tif_location downloadPath downloadName filename)]\<rparr>))"
proof -
  have sp: "select_path (JArr [JObj entry]) ''norm'' = Inr (Some ''/p1'')"
    using pt by (simp add: select_path_def py_index_def)
  have im: "py_getitem_int (JArr [JStr ''img0.tif'', JStr ''img1.tif'']) 1 = Inr (JStr ''img1.tif'')"
    by (simp add: py_index_def)
  note img = download_image_resolved[OF fp dd sp li im dp]
  have lg: "log (snd (download_image net self w dataset uname0 ''norm'' 1 downloadPath downloadName))
           = log w2 @ [Req \<lparr>meth = GET, url = ''https://portal-auth.nersc.gov/als/hdf/rawdata'' @ ''/p1'',
                            params = [(''group'', JStr ''/img1.tif'')], form = []\<rparr>]"
    by (simp add: img image_request_def rawdata_url_def split: option.splits)
  have ok: "download_image net self w dataset uname0 ''norm'' 1 downloadPath downloadName
                    = (Inr (tif_location downloadPath downloadName filename),
                       w2\<lparr>log := log w2 @ [Req (image_request rawdata_url ''/p1'' ''img1.tif'')],
                          files := (files w2)(tif_location downloadPath downloadName filename \<mapsto> content r),
                          stdout := stdout w2
                            @ [PStr (''download  complete: '' @ tif_location downloadPath downloadName filename)]\<rparr>)"
    if "net (log w2) (image_request rawdata_url ''/p1'' ''img1.tif'') = Some r"
       "writable w2 (tif_location downloadPath downloadName filename)" for r
    using that by (simp add: img)
  from lg ok show ?thesis by blast
qed

theorem download_image_scenario_witness:
  "derived_datasets
       (mock_portal (JArr [JObj [(''kind'', JStr ''norm''), (''path'', JStr ''/p1'')]])
              (JArr [JStr ''img0.tif'', JStr ''img1.tif'']) \<lparr>content = ''II*'', decoded = None\<rparr>)
       alvarorh_session empty_world ''scan_01''
     = (Inr (JArr [JObj [(''kind'', JStr ''norm''), (''path'', JStr ''/p1'')]]),
        empty_world\<lparr>log := [Req (derived_request ''scan_01'')]\<rparr>)
   \<and> list_images
       (mock_portal (JArr [JObj [(''kind'', JStr ''norm''), (''path'', JStr ''/p1'')]])
              (JArr [JStr ''img0.tif'', JStr ''img1.tif'']) \<lparr>content = ''II*'', decoded = None\<rparr>)
       alvarorh_session (empty_world\<lparr>log := [Req (derived_request ''scan_01'')]\<rparr>) ''scan_01'' ''alice''
     = (Inr (JArr [JStr ''img0.tif'', JStr ''img1.tif'']),
        empty_world\<lparr>log := [Req (derived_request ''scan_01''),
                             Req (list_images_request ''scan_01'' ''alice'')]\<rparr>)
   \<and> ''out'' \<noteq> []
   \<and> download_image
       (mock_portal (JArr [JObj [(''kind'', JStr ''norm''), (''path'', JStr ''/p1'')]])
              (JArr [JStr ''img0.tif'', JStr ''img1.tif'']) \<lparr>content = ''II*'', decoded = None\<rparr>)
       alvarorh_session empty_world ''scan_01'' (Some ''alice'') ''norm'' 1 ''out'' ''slice''
     = (Inr ''out/slice.tif'',
        empty_world\<lparr>log := [Req (derived_request ''scan_01''),
                             Req (list_images_request ''scan_01'' ''alice''),
                             Req \<lparr>meth = GET, url = ''https://portal-auth.nersc.gov/als/hdf/rawdata/p1'',
                                  params = [(''group'', JStr ''/img1.tif'')], form = []\<rparr>],
                    files := [''out/slice.tif'' \<mapsto> ''II*''],
                    stdout := [PStr ''download  complete: out/slice.tif'']\<rparr>)"
proof -
  let ?derived = "JArr [JObj [(''kind'', JStr ''norm''), (''path'', JStr ''/p1'')]]"
  let ?images = "JArr [JStr ''img0.tif'', JStr ''img1.tif'']"
  let ?other = "\<lparr>content = ''II*'', decoded = None\<rparr>"
  let ?net = "mock_portal ?derived ?images ?other"
  let ?w2 = "empty_world\<lparr>log := [Req (derived_request ''scan_01''),
                                    Req (list_images_request ''scan_01'' ''alice'')]\<rparr>"
  note dd = mock_derived[of ?derived ?images ?other]
  note li = mock_list_images[of ?derived ?images ?other]
  have dp: "''out'' \<noteq> []" by simp
  have kd: "map_of [(''kind'', JStr ''norm''), (''path'', JStr ''/p1'')] ''kind'' = Some (JStr ''norm'')"
    and pt: "map_of [(''kind'', JStr ''norm''), (''path'', JStr ''/p1'')] ''path'' = Some (JStr ''/p1'')"
    by simp_all
  note inst = download_image_scenario[OF formatPath_scan_01 dd kd pt li dp, where downloadName="''slice''"]
  have a: "?net (log ?w2) (image_request rawdata_url ''/p1'' ''img1.tif'') = Some ?other"
    by (simp add: mock_portal_def image_request_def rawdata_url_def)
  have wr: "writable ?w2 (tif_location ''out'' ''slice'' ''scan_01'')"
    by (simp add: empty_world_def)
  have tl: "tif_location ''out'' ''slice'' ''scan_01'' = ''out/slice.tif''"
    by (simp add: tif_location_def)
  from inst a wr
  have "download_image ?net alvarorh_session empty_world ''scan_01'' (Some ''alice'') ''norm'' 1 ''out'' ''slice''
     = (Inr (tif_location ''out'' ''slice'' ''scan_01''),
        ?w2\<lparr>log := log ?w2 @ [Req (image_request rawdata_url ''/p1'' ''img1.tif'')],
            files := (files ?w2)(tif_location ''out'' ''slice'' ''scan_01'' \<mapsto> content ?other),
            stdout := stdout ?w2 @ [PStr (''download  complete: '' @ tif_location ''out'' ''slice'' ''scan_01'')]\<rparr>)"
    by blast
  then show ?thesis
    using dd li by (simp add: tl image_request_def rawdata_url_def empty_world_def)
qed

end
